theory Spec2Isabelle
  imports Main "HOL-Library.Word"
begin

section \<open>Solution application: the data model\<close>

text \<open>
  This theory embeds the solution-application stage of the constraint-based type checker,
  \<^verbatim>\<open>lib/Sema/TypeCheckConstraintsApply.cpp\<close>. The type IR, the expression nodes, the
  type checker and the constraint solver are declared outside that file. Their data is
  modelled from the specification's data model; their operations are fields of the record
  \<open>Env\<close>, so every theorem below holds for whatever those collaborators compute.
\<close>

subsection \<open>Results of operations that yield a node pointer\<close>

text \<open>
  An operation of the source that returns \<^verbatim>\<open>Expr *\<close> either returns a node (\<open>Ret\<close>),
  returns the null pointer after emitting the listed diagnostics (\<open>Null\<close>), stops in a
  failed assertion, an \<^verbatim>\<open>llvm_unreachable\<close> or a null dereference (\<open>Abort\<close>, with the
  message), or, in the model only, runs out of recursion fuel.
\<close>

datatype Diag =
    tuple_conversion_not_expressible
  | while_converting_function_argument
  | discard_expr_outside_of_assignment
  | partial_application_of_value_type_method
  | downcast_to_supertype
  | condition_broken_proto
  | broken_bool
  | broken_array_bound_proto
  | broken_builtin_array_bound
  | integer_literal_broken_proto
  | builtin_integer_literal_broken_proto
  | other_diag string

datatype 'a result = Ret 'a | Null "Diag list" | Abort string | OutOfFuel

definition bindR :: "'a result \<Rightarrow> ('a \<Rightarrow> 'b result) \<Rightarrow> 'b result" where
  "bindR m f = (case m of Ret x \<Rightarrow> f x | Null ds \<Rightarrow> Null ds | Abort s \<Rightarrow> Abort s
                | OutOfFuel \<Rightarrow> OutOfFuel)"

subsection \<open>The type IR\<close>

type_synonym Identifier = string
type_synonym DeclId = nat
type_synonym SourceLoc = nat
type_synonym Qual = nat

datatype DefaultArgumentKind = DAK_None | DAK_Normal | DAK_File | DAK_Line | DAK_Column

text \<open>
  Modelled from the spec: the type IR of section 3 (the class \<^verbatim>\<open>Type\<close> and its node kinds
  are declared in headers that are not part of the sources). \<open>NullType\<close> is the null
  \<^verbatim>\<open>Type()\<close>, the type of a node that has not been assigned one. \<open>SubstitutedType\<close> is
  sugar: the archetype that was replaced, and its replacement. An archetype carries its
  superclass (\<open>NullType\<close> when it has none). A tuple field is its type, its name, its
  default-argument kind and its variadic flag.
\<close>

datatype Type =
    NullType
  | TypeVariableType nat
  | BuiltinIntegerType nat
  | BuiltinFloatType nat
  | BuiltinRawPointerType
  | TupleType "TupleTypeElt list"
  | FunctionType Type Type bool bool
  | PolymorphicFunctionType Type Type
  | LValueType Type Qual
  | MetaTypeType Type
  | BoundGenericType DeclId "Type list"
  | NominalType DeclId
  | ArchetypeType nat Type
  | ProtocolType DeclId
  | ProtocolCompositionType "Type list"
  | ArraySliceType Type
  | SubstitutedType Type Type
and TupleTypeElt = TupleTypeElt Type Identifier DefaultArgumentKind bool

fun getEltType :: "TupleTypeElt \<Rightarrow> Type" where
  "getEltType (TupleTypeElt t n k v) = t"

fun getName :: "TupleTypeElt \<Rightarrow> Identifier" where
  "getName (TupleTypeElt t n k v) = n"

fun getDefaultArgKind :: "TupleTypeElt \<Rightarrow> DefaultArgumentKind" where
  "getDefaultArgKind (TupleTypeElt t n k v) = k"

fun isVararg :: "TupleTypeElt \<Rightarrow> bool" where
  "isVararg (TupleTypeElt t n k v) = v"

definition hasInit :: "TupleTypeElt \<Rightarrow> bool" where
  "hasInit e = (getDefaultArgKind e \<noteq> DAK_None)"

text \<open>
  Modelled from the spec: the canonical type strips the sugar everywhere, the desugared
  type strips it at the top only; \<^verbatim>\<open>isEqual\<close> is equality of canonical types, and
  \<^verbatim>\<open>getAs<K>\<close> looks at the desugared type.
\<close>

fun getCanonicalType :: "Type \<Rightarrow> Type"
  and canonicalElt :: "TupleTypeElt \<Rightarrow> TupleTypeElt" where
  "getCanonicalType NullType = NullType"
| "getCanonicalType (TypeVariableType n) = TypeVariableType n"
| "getCanonicalType (BuiltinIntegerType w) = BuiltinIntegerType w"
| "getCanonicalType (BuiltinFloatType w) = BuiltinFloatType w"
| "getCanonicalType BuiltinRawPointerType = BuiltinRawPointerType"
| "getCanonicalType (TupleType fs) = TupleType (map canonicalElt fs)"
| "getCanonicalType (FunctionType a r ac bl) =
     FunctionType (getCanonicalType a) (getCanonicalType r) ac bl"
| "getCanonicalType (PolymorphicFunctionType a r) =
     PolymorphicFunctionType (getCanonicalType a) (getCanonicalType r)"
| "getCanonicalType (LValueType t q) = LValueType (getCanonicalType t) q"
| "getCanonicalType (MetaTypeType t) = MetaTypeType (getCanonicalType t)"
| "getCanonicalType (BoundGenericType d ts) = BoundGenericType d (map getCanonicalType ts)"
| "getCanonicalType (NominalType d) = NominalType d"
| "getCanonicalType (ArchetypeType n s) = ArchetypeType n s"
| "getCanonicalType (ProtocolType d) = ProtocolType d"
| "getCanonicalType (ProtocolCompositionType ts) =
     ProtocolCompositionType (map getCanonicalType ts)"
| "getCanonicalType (ArraySliceType t) = ArraySliceType (getCanonicalType t)"
| "getCanonicalType (SubstitutedType a r) = getCanonicalType r"
| "canonicalElt (TupleTypeElt t n k v) = TupleTypeElt (getCanonicalType t) n k v"

fun getDesugaredType :: "Type \<Rightarrow> Type" where
  "getDesugaredType (SubstitutedType a r) = getDesugaredType r"
| "getDesugaredType t = t"

definition isEqual :: "Type \<Rightarrow> Type \<Rightarrow> bool" where
  "isEqual a b = (getCanonicalType a = getCanonicalType b)"

definition getAsTupleType :: "Type \<Rightarrow> TupleTypeElt list option" where
  "getAsTupleType t = (case getDesugaredType t of TupleType fs \<Rightarrow> Some fs | _ \<Rightarrow> None)"

definition getAsLValueType :: "Type \<Rightarrow> (Type \<times> Qual) option" where
  "getAsLValueType t = (case getDesugaredType t of LValueType ob q \<Rightarrow> Some (ob, q) | _ \<Rightarrow> None)"

definition getAsFunctionType :: "Type \<Rightarrow> (Type \<times> Type \<times> bool \<times> bool) option" where
  "getAsFunctionType t =
     (case getDesugaredType t of FunctionType a r ac bl \<Rightarrow> Some (a, r, ac, bl) | _ \<Rightarrow> None)"

definition getAsArchetypeType :: "Type \<Rightarrow> (nat \<times> Type) option" where
  "getAsArchetypeType t =
     (case getDesugaredType t of ArchetypeType n s \<Rightarrow> Some (n, s) | _ \<Rightarrow> None)"

definition getAsBoundGenericType :: "Type \<Rightarrow> (DeclId \<times> Type list) option" where
  "getAsBoundGenericType t =
     (case getDesugaredType t of BoundGenericType d ts \<Rightarrow> Some (d, ts) | _ \<Rightarrow> None)"

definition getAsMetaTypeType :: "Type \<Rightarrow> Type option" where
  "getAsMetaTypeType t = (case getDesugaredType t of MetaTypeType i \<Rightarrow> Some i | _ \<Rightarrow> None)"


definition getRValueType :: "Type \<Rightarrow> Type" where
  "getRValueType t = (case getAsLValueType t of Some (ob, q) \<Rightarrow> ob | None \<Rightarrow> t)"



text \<open>
  Modelled from the spec: an existential type is a protocol type or a composition of
  existential types; \<^verbatim>\<open>isExistentialType(protocols)\<close> also collects its protocols.
\<close>

fun existentialProtocols :: "Type \<Rightarrow> DeclId list option" where
  "existentialProtocols (ProtocolType d) = Some [d]"
| "existentialProtocols (ProtocolCompositionType ts) =
     (if list_all (\<lambda>t. existentialProtocols t \<noteq> None) ts
      then Some (concat (map (\<lambda>t. the (existentialProtocols t)) ts)) else None)"
| "existentialProtocols (SubstitutedType a r) = existentialProtocols r"
| "existentialProtocols t = None"

definition isExistentialType :: "Type \<Rightarrow> bool" where
  "isExistentialType t = (existentialProtocols t \<noteq> None)"

subsection \<open>Expressions\<close>

type_synonym Conformance = nat
type_synonym ProtocolId = DeclId
type_synonym ExprPtr = nat

datatype MagicKind = Magic_File | Magic_Line | Magic_Column

datatype CheckedCastKind =
    Unresolved | InvalidCoercible | Downcast | SuperToArchetype | ArchetypeToArchetype
  | ArchetypeToConcrete | ExistentialToArchetype | ExistentialToConcrete

datatype ApplyKind = Call | DotSyntaxCall | ConstructorRefCall | OperatorCall

text \<open>
  Modelled from the spec: the expression nodes the rewriter reads and builds (the node
  classes are declared in \<^verbatim>\<open>Expr.h\<close>, which is not part of the sources). The last
  \<open>Type\<close> argument of a constructor is the node's own type. An \<open>ApplyExpr\<close> is the
  function, the argument and the implicit flag; a child that the source may leave null
  is an \<open>option\<close>. \<open>OtherExpr\<close> stands for every node kind the functions below treat
  uniformly: its kind and its children in order.
\<close>

datatype Expr =
    DeclRefExpr DeclId Type
  | SuperRefExpr Type
  | LiteralExpr string Type
  | MagicIdentifierLiteralExpr MagicKind SourceLoc bool Type
  | DiscardAssignmentExpr Type
  | ParenExpr Expr Type
  | TupleExpr "Expr list" Type
  | MetatypeExpr "Expr option" bool Type
  | ApplyExpr ApplyKind Expr Expr bool Type
  | LoadExpr Expr Type
  | RequalifyExpr Expr Type
  | MaterializeExpr Expr Type
  | ArchetypeToSuperExpr Expr Type
  | DerivedToBaseExpr Expr Type
  | ErasureExpr Expr Type "Conformance option list"
  | InjectIntoOptionalExpr "Expr option" Type
  | FunctionConversionExpr Expr Type
  | BridgeToBlockExpr "Expr option" Type
  | MetatypeConversionExpr Expr Type
  | AutoClosureExpr Expr Type
  | ScalarToTupleExpr Expr Type "ScalarToTupleElement list" "Expr option"
  | TupleShuffleExpr Expr "int list" "DeclId option" "Expr list" Type "Expr option"
  | AssignExpr Expr Expr Type
  | IfExpr Expr Expr Expr Type
  | ConditionalCheckedCastExpr Expr Type CheckedCastKind bool Type
  | IsaExpr Expr Type CheckedCastKind Type
  | NewArrayExpr Type
  | DefaultValueExpr Expr Type
  | ClosureExpr "Expr option" Type
  | OtherExpr string "Expr list" Type
and ScalarToTupleElement = ScalarField | CallerDefaultArg Expr | DefaultArgsOwner DeclId

fun getType :: "Expr \<Rightarrow> Type" where
  "getType (DeclRefExpr d t) = t"
| "getType (SuperRefExpr t) = t"
| "getType (LiteralExpr k t) = t"
| "getType (MagicIdentifierLiteralExpr k l i t) = t"
| "getType (DiscardAssignmentExpr t) = t"
| "getType (ParenExpr e t) = t"
| "getType (TupleExpr es t) = t"
| "getType (MetatypeExpr b r t) = t"
| "getType (ApplyExpr k f a i t) = t"
| "getType (LoadExpr e t) = t"
| "getType (RequalifyExpr e t) = t"
| "getType (MaterializeExpr e t) = t"
| "getType (ArchetypeToSuperExpr e t) = t"
| "getType (DerivedToBaseExpr e t) = t"
| "getType (ErasureExpr e t cs) = t"
| "getType (InjectIntoOptionalExpr e t) = t"
| "getType (FunctionConversionExpr e t) = t"
| "getType (BridgeToBlockExpr e t) = t"
| "getType (MetatypeConversionExpr e t) = t"
| "getType (AutoClosureExpr e t) = t"
| "getType (ScalarToTupleExpr e t els ij) = t"
| "getType (TupleShuffleExpr e m ow cd t ij) = t"
| "getType (AssignExpr d s t) = t"
| "getType (IfExpr c a b t) = t"
| "getType (ConditionalCheckedCastExpr e ct k i t) = t"
| "getType (IsaExpr e ct k t) = t"
| "getType (NewArrayExpr t) = t"
| "getType (DefaultValueExpr e t) = t"
| "getType (ClosureExpr b t) = t"
| "getType (OtherExpr k es t) = t"

fun setType :: "Type \<Rightarrow> Expr \<Rightarrow> Expr" where
  "setType T (DeclRefExpr d t) = DeclRefExpr d T"
| "setType T (SuperRefExpr t) = SuperRefExpr T"
| "setType T (LiteralExpr k t) = LiteralExpr k T"
| "setType T (MagicIdentifierLiteralExpr k l i t) = MagicIdentifierLiteralExpr k l i T"
| "setType T (DiscardAssignmentExpr t) = DiscardAssignmentExpr T"
| "setType T (ParenExpr e t) = ParenExpr e T"
| "setType T (TupleExpr es t) = TupleExpr es T"
| "setType T (MetatypeExpr b r t) = MetatypeExpr b r T"
| "setType T (ApplyExpr k f a i t) = ApplyExpr k f a i T"
| "setType T (LoadExpr e t) = LoadExpr e T"
| "setType T (RequalifyExpr e t) = RequalifyExpr e T"
| "setType T (MaterializeExpr e t) = MaterializeExpr e T"
| "setType T (ArchetypeToSuperExpr e t) = ArchetypeToSuperExpr e T"
| "setType T (DerivedToBaseExpr e t) = DerivedToBaseExpr e T"
| "setType T (ErasureExpr e t cs) = ErasureExpr e T cs"
| "setType T (InjectIntoOptionalExpr e t) = InjectIntoOptionalExpr e T"
| "setType T (FunctionConversionExpr e t) = FunctionConversionExpr e T"
| "setType T (BridgeToBlockExpr e t) = BridgeToBlockExpr e T"
| "setType T (MetatypeConversionExpr e t) = MetatypeConversionExpr e T"
| "setType T (AutoClosureExpr e t) = AutoClosureExpr e T"
| "setType T (ScalarToTupleExpr e t els ij) = ScalarToTupleExpr e T els ij"
| "setType T (TupleShuffleExpr e m ow cd t ij) = TupleShuffleExpr e m ow cd T ij"
| "setType T (AssignExpr d s t) = AssignExpr d s T"
| "setType T (IfExpr c a b t) = IfExpr c a b T"
| "setType T (ConditionalCheckedCastExpr e ct k i t) = ConditionalCheckedCastExpr e ct k i T"
| "setType T (IsaExpr e ct k t) = IsaExpr e ct k T"
| "setType T (NewArrayExpr t) = NewArrayExpr T"
| "setType T (DefaultValueExpr e t) = DefaultValueExpr e T"
| "setType T (ClosureExpr b t) = ClosureExpr b T"
| "setType T (OtherExpr k es t) = OtherExpr k es T"


subsection \<open>Locators, overload choices and the solution\<close>

datatype LocatorPathElt =
    ApplyArgument | ApplyFunction | MemberRefBase | Member | ConstructorMember
  | ConversionMember | SubscriptMember | SubscriptIndex | TupleElement nat | ScalarToTuple
  | InterpolationArgument nat | IfThen | IfElse | ClosureResult | Load | NewArrayElement
  | AssignSource | UnresolvedMember

text \<open>A locator is its anchor (the address of a node) and its path.\<close>

type_synonym Locator = "ExprPtr \<times> LocatorPathElt list"

definition withPathElement :: "Locator \<Rightarrow> LocatorPathElt \<Rightarrow> Locator" where
  "withPathElement l e = (fst l, snd l @ [e])"

datatype OverloadChoice =
    Decl DeclId | DeclViaDynamic DeclId | TupleIndex nat | BaseType
  | FunctionReturningBaseType | IdentityFunction | TypeDecl DeclId

fun getDecl :: "OverloadChoice \<Rightarrow> DeclId option" where
  "getDecl (Decl d) = Some d"
| "getDecl (DeclViaDynamic d) = Some d"
| "getDecl (TypeDecl d) = Some d"
| "getDecl c = None"

datatype ConversionRestrictionKind =
    TupleToTuple | ScalarToTupleRestriction | Superclass | Existential | ValueToOptional | User

record Solution =
  constraintRestrictions :: "Type \<times> Type \<Rightarrow> ConversionRestrictionKind option"
  overloadChoices :: "Locator \<Rightarrow> (OverloadChoice \<times> Type) option"

subsection \<open>The collaborators, as parameters\<close>

text \<open>
  What the declarations and the nodes answer. A declaration that is a \<^verbatim>\<open>FuncDecl\<close> has a
  name, a type, an invalid flag, an instance-member flag and a natural argument count (an
  \<^verbatim>\<open>unsigned\<close>); a function declaration has the default argument of each parameter (its
  kind and the parameter's type); a protocol has members, a conformance has the witness
  of each requirement; a node has source locations. The predicates on types that look at
  the declaration behind a nominal type are taken as they are.
\<close>

record FuncDecl =
  getFuncName :: Identifier
  getFuncType :: Type
  isInvalid :: bool
  isInstanceMember :: bool
  getNaturalArgumentCount :: "32 word"

record Decls =
  getDefaultArg :: "DeclId \<Rightarrow> nat \<Rightarrow> DefaultArgumentKind \<times> Type"
  asFuncDecl :: "DeclId \<Rightarrow> FuncDecl option"
  getMembers :: "ProtocolId \<Rightarrow> DeclId list"
  getWitness :: "Conformance \<Rightarrow> DeclId \<Rightarrow> DeclId"
  getOptionalDecl :: DeclId
  getFieldForScalarInit :: "TupleTypeElt list \<Rightarrow> int"
  getVarargBaseTy :: "TupleTypeElt \<Rightarrow> Type"
  mayHaveSuperclass :: "Type \<Rightarrow> bool"
  getClassOrBoundGenericClass :: "Type \<Rightarrow> bool"
  getNominalOrBoundGenericNominal :: "Type \<Rightarrow> bool"
  getLoc :: "Expr \<Rightarrow> SourceLoc"
  getStartLoc :: "Expr \<Rightarrow> SourceLoc"

text \<open>
  The type checker's entry points. \<open>typeCheckExpression\<close> returns its \<^verbatim>\<open>invalid\<close> flag
  and the expression as it left it; \<open>conformsToProtocol\<close> returns whether the type
  conforms and the conformance it found (null for an archetype); a null \<^verbatim>\<open>Type\<close> or a
  null node is \<open>NullType\<close> or \<open>None\<close>. \<open>computeTupleShuffle\<close> returns \<open>None\<close> when
  the source reports failure (\<^verbatim>\<open>true\<close>), and the two arrays otherwise.
\<close>

datatype KnownProtocolKind = LogicValue | ArrayBound

record TypeChecker =
  typeCheckExpression :: "Expr \<Rightarrow> Type \<Rightarrow> bool \<times> Expr"
  conformsToProtocol :: "Type \<Rightarrow> ProtocolId \<Rightarrow> bool \<times> Conformance option"
  getWitnessType :: "Type \<Rightarrow> ProtocolId \<Rightarrow> Conformance option \<Rightarrow> Identifier \<Rightarrow> Type"
  getProtocol :: "KnownProtocolKind \<Rightarrow> ProtocolId option"
  getTypeOfMemberReference :: "Type \<Rightarrow> DeclId \<Rightarrow> Type"
  getSuperClassOf :: "Type \<Rightarrow> Type"
  isSubtypeOf :: "Type \<Rightarrow> Type \<Rightarrow> bool"
  buildArrayInjectionFnRef :: "Type \<Rightarrow> Type \<Rightarrow> SourceLoc \<Rightarrow> Expr option"
  coerceToRValue :: "Expr \<Rightarrow> Expr option"
  lookupMember :: "Type \<Rightarrow> Identifier \<Rightarrow> DeclId list"
  typeCheckCheckedCast :: "Type \<Rightarrow> Type \<Rightarrow> Expr \<Rightarrow> CheckedCastKind"
  getOptionalType :: "Type \<Rightarrow> Type"
  computeTupleShuffle ::
    "TupleTypeElt list \<Rightarrow> TupleTypeElt list \<Rightarrow> bool \<Rightarrow> (int list \<times> nat list) option"
  hasMandatoryTupleLabels :: "Expr \<Rightarrow> bool"

text \<open>
  An \<^verbatim>\<open>ExprRewriter\<close> is built over a solution. Its member-reference builder and its
  application finisher re-enter the whole rewriter and the solver; the functions below
  only hand them a node and go on with what they return, so they are parameters here,
  like the lookup of the owner of the default arguments of a locator.
\<close>

record ExprRewriter =
  solution :: Solution
  buildMemberRef :: "Expr \<Rightarrow> DeclId \<Rightarrow> Type \<Rightarrow> Locator \<Rightarrow> bool \<Rightarrow> Expr option"
  finishApply :: "Expr \<Rightarrow> Type \<Rightarrow> Locator \<Rightarrow> Expr result"
  findDefaultArgsOwner :: "Locator \<Rightarrow> DeclId option"

text \<open>
  The environment of a run: the declarations, the type checker, the rewriter at work,
  the locator of a node, and the solver. \<open>solveWitnessCall\<close> is the new constraint system
  that \<^verbatim>\<open>callWitness\<close> solves for the conversion of the argument's type to the witness's
  input type: the rewriter over its first solution, \<open>None\<close> when there is none.
\<close>

record Env =
  decls :: Decls
  tc :: TypeChecker
  rewriter :: ExprRewriter
  getConstraintLocator :: "Expr \<Rightarrow> Locator"
  solveWitnessCall :: "Type \<Rightarrow> Type \<Rightarrow> ExprRewriter option"


section \<open>Caller-side default arguments\<close>

text \<open>
  \<^verbatim>\<open>getCallerDefaultArg\<close> (lines 2065-2100). The new literal has no type until the type
  checker has checked it against the parameter's type; the assertion on the outcome of
  that check is a branch of the model.
\<close>

definition getCallerDefaultArg :: "Env \<Rightarrow> SourceLoc \<Rightarrow> DeclId \<Rightarrow> nat \<Rightarrow> Expr result" where
  "getCallerDefaultArg env loc owner index =
     (let defArg = getDefaultArg (decls env) owner index;
          checked = (\<lambda>magicKind.
             let init = MagicIdentifierLiteralExpr magicKind loc True NullType;
                 r = typeCheckExpression (tc env) init (snd defArg)
             in if fst r then Abort ''conversion cannot fail'' else Ret (snd r))
      in case fst defArg of
           DAK_None \<Rightarrow> Abort ''No default argument here?''
         | DAK_Normal \<Rightarrow> Null []
         | DAK_Column \<Rightarrow> checked Magic_Column
         | DAK_File \<Rightarrow> checked Magic_File
         | DAK_Line \<Rightarrow> checked Magic_Line)"

definition magicKindOf :: "DefaultArgumentKind \<Rightarrow> MagicKind option" where
  "magicKindOf k = (case k of DAK_File \<Rightarrow> Some Magic_File | DAK_Line \<Rightarrow> Some Magic_Line
                    | DAK_Column \<Rightarrow> Some Magic_Column | _ \<Rightarrow> None)"

section \<open>The partial-application tracker\<close>

text \<open>
  \<^verbatim>\<open>ValueTypeMemberApplications\<close> is a \<^verbatim>\<open>DenseMap<Expr*, unsigned>\<close>: its keys are node
  addresses. The map is an association list with one entry per key; \<^verbatim>\<open>insert\<close> leaves
  the entry of a key that is already present as it is.
\<close>

type_synonym Applications = "(ExprPtr \<times> 32 word) list"

definition dm_find :: "Applications \<Rightarrow> ExprPtr \<Rightarrow> 32 word option" where
  "dm_find apps p = map_of apps p"

definition dm_insert :: "Applications \<Rightarrow> ExprPtr \<Rightarrow> 32 word \<Rightarrow> Applications" where
  "dm_insert apps p c = (if dm_find apps p = None then apps @ [(p, c)] else apps)"

definition dm_erase :: "Applications \<Rightarrow> ExprPtr \<Rightarrow> Applications" where
  "dm_erase apps p = filter (\<lambda>e. fst e \<noteq> p) apps"

text \<open>
  \<^verbatim>\<open>visitUnresolvedDotExpr\<close>, the \<^verbatim>\<open>Decl\<close> case after \<^verbatim>\<open>buildMemberRef\<close> has returned
  the node \<open>member\<close> at address \<open>memberPtr\<close> (lines 1350-1370).
\<close>

definition trackValueTypeMember ::
  "Decls \<Rightarrow> Applications \<Rightarrow> ExprPtr \<Rightarrow> Expr \<Rightarrow> Applications" where
  "trackValueTypeMember ds apps memberPtr member =
     (case member of
        ApplyExpr k fn arg imp ty \<Rightarrow>
          (case getAsLValueType (getType arg) of
             None \<Rightarrow> apps
           | Some selfLVT \<Rightarrow>
               (case fn of
                  DeclRefExpr d t \<Rightarrow>
                    (case asFuncDecl ds d of
                       None \<Rightarrow> apps
                     | Some fn' \<Rightarrow>
                         if isInstanceMember fn'
                         then dm_insert apps memberPtr (getNaturalArgumentCount fn' - 1)
                         else apps)
                | _ \<Rightarrow> apps))
      | _ \<Rightarrow> apps)"

text \<open>
  \<^verbatim>\<open>visitApplyExpr\<close> (lines 1690-1708), after \<^verbatim>\<open>finishApply\<close> has returned the node at
  address \<open>result\<close> (0 for null): \<open>fnPtr\<close> is the address of
  \<^verbatim>\<open>expr->getFn()->getSemanticsProvidingExpr()\<close>.
\<close>

definition visitApplyExpr_applications ::
  "Applications \<Rightarrow> ExprPtr \<Rightarrow> ExprPtr \<Rightarrow> Applications result" where
  "visitApplyExpr_applications apps fnPtr result =
     (case dm_find apps fnPtr of
        None \<Rightarrow> Ret apps
      | Some count \<Rightarrow>
          if \<not> (count > 0) then Abort ''count > 0''
          else let apps' = dm_erase apps fnPtr
               in if count > 1 then Ret (dm_insert apps' result (count - 1)) else Ret apps')"

text \<open>
  \<^verbatim>\<open>finalize\<close> (lines 1994-2000): one diagnostic per entry, at the location of the
  entry's node. The location is read through the key, so a null key (address 0), which
  \<^verbatim>\<open>visitApplyExpr\<close> inserts when \<^verbatim>\<open>finishApply\<close> has returned null, is dereferenced.
\<close>

definition finalize :: "Applications \<Rightarrow> (ExprPtr \<times> Diag) list result" where
  "finalize apps =
     (if list_ex (\<lambda>unapplied. fst unapplied = 0) apps then Abort ''null dereference''
      else Ret (map (\<lambda>unapplied. (fst unapplied, partial_application_of_value_type_method))
                  apps))"

section \<open>The protocol call helper and the literal converter\<close>











section \<open>The coercion engine\<close>

text \<open>
  The engine's functions call each other: \<^verbatim>\<open>coerceToType\<close> calls the tuple, scalar and
  user-conversion coercers, which call \<^verbatim>\<open>coerceToType\<close> on the parts. Each function
  below takes the recursive entry \<open>rec\<close> as its first argument; \<open>coerceToType\<close> ties
  the knot with a fuel counter, since a user conversion may be coerced again without
  bound.
\<close>

type_synonym Coerce = "Expr \<Rightarrow> Type \<Rightarrow> Locator \<Rightarrow> Expr result"

subsection \<open>Tuple shuffles\<close>

text \<open>
  Modelled from the spec: the sentinels of a shuffle's \<open>sources\<close> are negative and
  distinct (\<^verbatim>\<open>TupleShuffleExpr\<close>'s enumeration is declared in a header).
\<close>

definition DefaultInitialize :: int where "DefaultInitialize = -1"
definition FirstVariadic :: int where "FirstVariadic = -2"
definition CallerDefaultInitialize :: int where "CallerDefaultInitialize = -3"

text \<open>
  The local variables of \<^verbatim>\<open>coerceTupleToTuple\<close> (lines 2102-2311). \<open>elements\<close> are the
  elements of the tuple expression under the parentheses of \<open>expr\<close>, if there is one:
  the source replaces them in place.
\<close>

record ShuffleState =
  sources :: "int list"
  hasVarArg :: bool
  anythingShuffled :: bool
  hasInits :: bool
  toSugarFields :: "TupleTypeElt list"
  fromTupleExprFields :: "TupleTypeElt list"
  callerDefaultArgs :: "Expr list"
  defaultArgsOwner :: "DeclId option"
  elements :: "Expr list option"

fun tupleElements :: "Expr \<Rightarrow> Expr list option" where
  "tupleElements (ParenExpr e t) = tupleElements e"
| "tupleElements (TupleExpr es t) = Some es"
| "tupleElements e = None"

text \<open>
  The tuple expression gets its elements and its type, and every parenthesis around it
  the same type (lines 2277-2284 and 2292-2297).
\<close>

fun updateTupleExpr :: "Expr list \<Rightarrow> Type \<Rightarrow> Expr \<Rightarrow> Expr" where
  "updateTupleExpr es T (ParenExpr e t) = ParenExpr (updateTupleExpr es T e) T"
| "updateTupleExpr es T (TupleExpr es0 t) = TupleExpr es T"
| "updateTupleExpr es T e = e"

text \<open>The owner of the default arguments is looked up once and asserted afterwards.\<close>

definition digOutOwner :: "Env \<Rightarrow> Locator \<Rightarrow> DeclId option \<Rightarrow> DeclId result" where
  "digOutOwner env locator known =
     (case known of
        None \<Rightarrow>
          (case findDefaultArgsOwner (rewriter env) locator of
             None \<Rightarrow> Abort ''Missing default arguments owner?''
           | Some owner \<Rightarrow> Ret owner)
      | Some owner \<Rightarrow>
          if findDefaultArgsOwner (rewriter env) locator = Some owner then Ret owner
          else Abort ''findDefaultArgsOwner == defaultArgsOwner'')"

text \<open>One round of the loop over the destination's fields (lines 2124-2217).\<close>

definition shuffleField ::
  "Coerce \<Rightarrow> Env \<Rightarrow> Expr \<Rightarrow> TupleTypeElt list \<Rightarrow> TupleTypeElt list \<Rightarrow> Locator \<Rightarrow> nat
     \<Rightarrow> ShuffleState \<Rightarrow> ShuffleState result" where
  "shuffleField rec env expr fromFields toFields locator i st =
     (let toElt = toFields ! i; toEltType = getEltType toElt in
      if \<not> i < length (sources st) then Abort ''idx < size()''
      else if sources st ! i = DefaultInitialize then
        (case digOutOwner env locator (defaultArgsOwner st) of
           Ret owner \<Rightarrow>
             (let st1 = st\<lparr> defaultArgsOwner := Some owner, anythingShuffled := True,
                            hasInits := True, toSugarFields := toSugarFields st @ [toElt] \<rparr>
              in case getCallerDefaultArg env (getLoc (decls env) expr) owner i of
                   Ret defArg \<Rightarrow>
                     Ret (st1\<lparr> callerDefaultArgs := callerDefaultArgs st1 @ [defArg],
                                sources := (sources st1)[i := CallerDefaultInitialize] \<rparr>)
                 | Null ds \<Rightarrow> Ret st1
                 | Abort m \<Rightarrow> Abort m
                 | OutOfFuel \<Rightarrow> OutOfFuel)
         | Null ds \<Rightarrow> Null ds
         | Abort m \<Rightarrow> Abort m
         | OutOfFuel \<Rightarrow> OutOfFuel)
      else if sources st ! i = FirstVariadic then
        (if i \<noteq> length toFields - 1 then Abort ''Vararg not at the end?''
         else Ret (st\<lparr> toSugarFields := toSugarFields st @ [toElt], hasVarArg := True,
                        anythingShuffled := True \<rparr>))
      else
        (let src = sources st ! i;
             st1 = (if src \<noteq> int i then st\<lparr> anythingShuffled := True \<rparr> else st)
         in if src < 0 \<or> \<not> nat src < length fromFields then Abort ''Invalid index!''
            else
              (let fromElt = fromFields ! nat src; fromEltType = getEltType fromElt in
               if isEqual fromEltType toEltType then
                 (case elements st1 of
                    None \<Rightarrow>
                      Ret (st1\<lparr> toSugarFields := toSugarFields st1 @
                                    [TupleTypeElt fromEltType (getName toElt)
                                       (getDefaultArgKind toElt) (isVararg toElt)],
                                 fromTupleExprFields := (fromTupleExprFields st1)[nat src := fromElt],
                                 hasInits := (hasInits st1 \<or> hasInit toElt) \<rparr>)
                  | Some es \<Rightarrow>
                      if \<not> nat src < length es then Abort ''Invalid index!''
                      else
                        Ret (st1\<lparr> toSugarFields := toSugarFields st1 @
                                      [TupleTypeElt (getType (es ! nat src)) (getName toElt)
                                         (getDefaultArgKind toElt) (isVararg toElt)],
                                   fromTupleExprFields :=
                                     (fromTupleExprFields st1)[nat src := fromElt],
                                   hasInits := (hasInits st1 \<or> hasInit toElt) \<rparr>))
               else
                 (case elements st1 of
                    None \<Rightarrow> Null [tuple_conversion_not_expressible]
                  | Some es \<Rightarrow>
                      if \<not> nat src < length es then Abort ''Invalid index!''
                      else
                        (case rec (es ! nat src) toEltType
                                (withPathElement locator (TupleElement (nat src))) of
                           Ret convertedElt \<Rightarrow>
                             Ret (st1\<lparr> elements := Some (es[nat src := convertedElt]),
                                        toSugarFields := toSugarFields st1 @
                                          [TupleTypeElt (getType convertedElt) (getName toElt)
                                             (getDefaultArgKind toElt) (isVararg toElt)],
                                        fromTupleExprFields :=
                                          (fromTupleExprFields st1)
                                             [nat src := TupleTypeElt (getType convertedElt)
                                                (getName fromElt) (getDefaultArgKind fromElt)
                                                (isVararg fromElt)],
                                        hasInits := (hasInits st1 \<or> hasInit toElt) \<rparr>)
                         | Null ds \<Rightarrow> Null ds
                         | Abort m \<Rightarrow> Abort m
                         | OutOfFuel \<Rightarrow> OutOfFuel)))))"

fun shuffleFields ::
  "Coerce \<Rightarrow> Env \<Rightarrow> Expr \<Rightarrow> TupleTypeElt list \<Rightarrow> TupleTypeElt list \<Rightarrow> Locator \<Rightarrow> nat list
     \<Rightarrow> ShuffleState \<Rightarrow> ShuffleState result" where
  "shuffleFields rec env expr fromFields toFields locator [] st = Ret st"
| "shuffleFields rec env expr fromFields toFields locator (i # rest) st =
     (case shuffleField rec env expr fromFields toFields locator i st of
        Ret st' \<Rightarrow> shuffleFields rec env expr fromFields toFields locator rest st'
      | Null ds \<Rightarrow> Null ds
      | Abort m \<Rightarrow> Abort m
      | OutOfFuel \<Rightarrow> OutOfFuel)"

text \<open>One round of the loop over the variadic arguments (lines 2223-2260).\<close>

definition variadicArg ::
  "Coerce \<Rightarrow> TupleTypeElt list \<Rightarrow> Type \<Rightarrow> Locator \<Rightarrow> nat \<Rightarrow> ShuffleState
     \<Rightarrow> ShuffleState result" where
  "variadicArg rec fromFields toEltType locator fromFieldIdx st =
     (if \<not> fromFieldIdx < length fromFields then Abort ''Invalid index!''
      else
        (let fromElt = fromFields ! fromFieldIdx; fromEltType = getEltType fromElt in
         if isEqual toEltType fromEltType then
           Ret (st\<lparr> sources := sources st @ [int fromFieldIdx],
                     fromTupleExprFields := (fromTupleExprFields st)[fromFieldIdx := fromElt] \<rparr>)
         else
           (case elements st of
              None \<Rightarrow> Null [tuple_conversion_not_expressible]
            | Some es \<Rightarrow>
                if \<not> fromFieldIdx < length es then Abort ''Invalid index!''
                else
                  (case rec (es ! fromFieldIdx) toEltType
                          (withPathElement locator (TupleElement fromFieldIdx)) of
                     Ret convertedElt \<Rightarrow>
                       Ret (st\<lparr> elements := Some (es[fromFieldIdx := convertedElt]),
                                 sources := sources st @ [int fromFieldIdx],
                                 fromTupleExprFields :=
                                   (fromTupleExprFields st)
                                      [fromFieldIdx := TupleTypeElt (getType convertedElt)
                                         (getName fromElt) (getDefaultArgKind fromElt)
                                         (isVararg fromElt)] \<rparr>)
                   | Null ds \<Rightarrow> Null ds
                   | Abort m \<Rightarrow> Abort m
                   | OutOfFuel \<Rightarrow> OutOfFuel))))"

fun variadicArgsLoop ::
  "Coerce \<Rightarrow> TupleTypeElt list \<Rightarrow> Type \<Rightarrow> Locator \<Rightarrow> nat list \<Rightarrow> ShuffleState
     \<Rightarrow> ShuffleState result" where
  "variadicArgsLoop rec fromFields toEltType locator [] st = Ret st"
| "variadicArgsLoop rec fromFields toEltType locator (fromFieldIdx # rest) st =
     (case variadicArg rec fromFields toEltType locator fromFieldIdx st of
        Ret st' \<Rightarrow> variadicArgsLoop rec fromFields toEltType locator rest st'
      | Null ds \<Rightarrow> Null ds
      | Abort m \<Rightarrow> Abort m
      | OutOfFuel \<Rightarrow> OutOfFuel)"

text \<open>
  The variadic arguments and the injection function (lines 2219-2272): the result is the
  state and the injection function, null when there is no variadic field.
\<close>

definition convertVariadic ::
  "Coerce \<Rightarrow> Env \<Rightarrow> Expr \<Rightarrow> TupleTypeElt list \<Rightarrow> TupleTypeElt list \<Rightarrow> Locator \<Rightarrow> nat list
     \<Rightarrow> ShuffleState \<Rightarrow> (ShuffleState \<times> Expr option) result" where
  "convertVariadic rec env expr fromFields toFields locator variadicArgs st =
     (if \<not> hasVarArg st then Ret (st, None)
      else if toFields = [] then Abort ''back() of an empty array''
      else
        (let toEltType = getVarargBaseTy (decls env) (last toFields) in
         case variadicArgsLoop rec fromFields toEltType locator variadicArgs st of
           Ret st' \<Rightarrow>
             (case getEltType (last toFields) of
                ArraySliceType b \<Rightarrow>
                  (case buildArrayInjectionFnRef (tc env) (getEltType (last toFields))
                          (BuiltinIntegerType 64) (getStartLoc (decls env) expr) of
                     None \<Rightarrow> Null []
                   | Some injectionFn \<Rightarrow> Ret (st', Some injectionFn))
              | _ \<Rightarrow> Abort ''cast<ArraySliceType>'')
         | Null ds \<Rightarrow> Null ds
         | Abort m \<Rightarrow> Abort m
         | OutOfFuel \<Rightarrow> OutOfFuel))"

definition initialShuffleState :: "Expr \<Rightarrow> TupleTypeElt list \<Rightarrow> int list \<Rightarrow> ShuffleState" where
  "initialShuffleState expr fromFields srcs =
     \<lparr> sources = srcs, hasVarArg = False, anythingShuffled = False, hasInits = False,
       toSugarFields = [],
       fromTupleExprFields = replicate (length fromFields) (TupleTypeElt NullType [] DAK_None False),
       callerDefaultArgs = [], defaultArgsOwner = None, elements = tupleElements expr \<rparr>"

text \<open>The end of \<^verbatim>\<open>coerceTupleToTuple\<close> (lines 2274-2310).\<close>

definition finishShuffle ::
  "Expr \<Rightarrow> TupleTypeElt list \<Rightarrow> ShuffleState \<Rightarrow> Expr option \<Rightarrow> Expr" where
  "finishShuffle expr toFields st injectionFn =
     (let fromTupleType = TupleType (fromTupleExprFields st);
          toSugarType = (if hasInits st then TupleType toFields
                         else TupleType (toSugarFields st))
      in case elements st of
           Some es \<Rightarrow>
             if \<not> anythingShuffled st then updateTupleExpr es toSugarType expr
             else TupleShuffleExpr (updateTupleExpr es fromTupleType expr) (sources st)
                    (defaultArgsOwner st) (callerDefaultArgs st) toSugarType injectionFn
         | None \<Rightarrow>
             TupleShuffleExpr expr (sources st) (defaultArgsOwner st) (callerDefaultArgs st)
               toSugarType injectionFn)"

definition coerceTupleToTuple ::
  "Coerce \<Rightarrow> Env \<Rightarrow> Expr \<Rightarrow> TupleTypeElt list \<Rightarrow> TupleTypeElt list \<Rightarrow> Locator \<Rightarrow> int list
     \<Rightarrow> nat list \<Rightarrow> Expr result" where
  "coerceTupleToTuple rec env expr fromFields toFields locator srcs variadicArgs =
     (case shuffleFields rec env expr fromFields toFields locator [0 ..< length toFields]
             (initialShuffleState expr fromFields srcs) of
        Ret st \<Rightarrow>
          (case convertVariadic rec env expr fromFields toFields locator variadicArgs st of
             Ret (st', injectionFn) \<Rightarrow> Ret (finishShuffle expr toFields st' injectionFn)
           | Null ds \<Rightarrow> Null ds
           | Abort m \<Rightarrow> Abort m
           | OutOfFuel \<Rightarrow> OutOfFuel)
      | Null ds \<Rightarrow> Null ds
      | Abort m \<Rightarrow> Abort m
      | OutOfFuel \<Rightarrow> OutOfFuel)"

subsection \<open>Scalar to tuple\<close>

text \<open>
  \<^verbatim>\<open>coerceScalarToTuple\<close> (lines 2315-2438): the loop that keeps the sugar of the scalar
  field stops at the first field with a default value (lines 2357-2385).
\<close>

fun sugarFieldsLoop ::
  "Decls \<Rightarrow> Expr \<Rightarrow> nat \<Rightarrow> TupleTypeElt list \<Rightarrow> nat \<Rightarrow> TupleTypeElt list
     \<Rightarrow> (bool \<times> TupleTypeElt list) result" where
  "sugarFieldsLoop ds expr toScalarIdx [] i sugarFields = Ret (False, sugarFields)"
| "sugarFieldsLoop ds expr toScalarIdx (field # rest) i sugarFields =
     (if hasInit field then Ret (True, sugarFields)
      else if i = toScalarIdx then
        (if isVararg field then
           (if \<not> isEqual (getType expr) (getVarargBaseTy ds field)
            then Abort ''scalar field is not equivalent to dest vararg field?!''
            else sugarFieldsLoop ds expr toScalarIdx rest (Suc i)
                   (sugarFields @ [TupleTypeElt (getEltType field) (getName field)
                                     (getDefaultArgKind field) True]))
         else
           (if \<not> isEqual (getType expr) (getEltType field)
            then Abort ''scalar field is not equivalent to dest tuple field?!''
            else sugarFieldsLoop ds expr toScalarIdx rest (Suc i)
                   (sugarFields @ [TupleTypeElt (getType expr) (getName field) DAK_None False])))
      else sugarFieldsLoop ds expr toScalarIdx rest (Suc i) (sugarFields @ [field]))"

text \<open>The elements of the resulting tuple (lines 2387-2430).\<close>

fun scalarElementsLoop ::
  "Env \<Rightarrow> Expr \<Rightarrow> Locator \<Rightarrow> nat \<Rightarrow> TupleTypeElt list \<Rightarrow> nat \<Rightarrow> DeclId option
     \<Rightarrow> ScalarToTupleElement list \<Rightarrow> ScalarToTupleElement list result" where
  "scalarElementsLoop env expr locator toScalarIdx [] i owner els = Ret els"
| "scalarElementsLoop env expr locator toScalarIdx (field # rest) i owner els =
     (if i = toScalarIdx
      then scalarElementsLoop env expr locator toScalarIdx rest (Suc i) owner (els @ [ScalarField])
      else if isVararg field
      then scalarElementsLoop env expr locator toScalarIdx rest (Suc i) owner els
      else if \<not> hasInit field then Abort ''Expected a default argument''
      else
        (case digOutOwner env locator owner of
           Ret found \<Rightarrow>
             (case getCallerDefaultArg env (getLoc (decls env) expr) found i of
                Ret defArg \<Rightarrow>
                  scalarElementsLoop env expr locator toScalarIdx rest (Suc i)
                    (Some found) (els @ [CallerDefaultArg defArg])
              | Null ds \<Rightarrow>
                  scalarElementsLoop env expr locator toScalarIdx rest (Suc i)
                    (Some found) (els @ [DefaultArgsOwner found])
              | Abort m \<Rightarrow> Abort m
              | OutOfFuel \<Rightarrow> OutOfFuel)
         | Null ds \<Rightarrow> Null ds
         | Abort m \<Rightarrow> Abort m
         | OutOfFuel \<Rightarrow> OutOfFuel))"

definition scalarInjectionFn :: "Env \<Rightarrow> Expr \<Rightarrow> TupleTypeElt \<Rightarrow> Expr option result" where
  "scalarInjectionFn env expr lastField =
     (if isVararg lastField then
        (case getEltType lastField of
           ArraySliceType b \<Rightarrow>
             (case buildArrayInjectionFnRef (tc env) (getEltType lastField)
                     (BuiltinIntegerType 64) (getStartLoc (decls env) expr) of
                None \<Rightarrow> Null []
              | Some injectionFn \<Rightarrow> Ret (Some injectionFn))
         | _ \<Rightarrow> Abort ''cast<ArraySliceType>'')
      else Ret None)"

definition coerceScalarToTuple ::
  "Coerce \<Rightarrow> Env \<Rightarrow> Expr \<Rightarrow> TupleTypeElt list \<Rightarrow> int \<Rightarrow> Locator \<Rightarrow> Expr result" where
  "coerceScalarToTuple rec env expr toFields toScalarIdx locator =
     (if toFields = [] then Abort ''back() of an empty array''
      else
        bindR (scalarInjectionFn env expr (last toFields)) (\<lambda>injectionFn.
          if toScalarIdx < 0 \<or> \<not> nat toScalarIdx < length toFields then Abort ''Invalid index!''
          else
            (let field = toFields ! nat toScalarIdx;
                 toScalarType = (if isVararg field then getVarargBaseTy (decls env) field
                                 else getEltType field)
             in bindR (rec expr toScalarType (withPathElement locator ScalarToTuple)) (\<lambda>expr'.
                bindR (sugarFieldsLoop (decls env) expr' (nat toScalarIdx) toFields 0 [])
                  (\<lambda>sugar.
                bindR (scalarElementsLoop env expr' locator (nat toScalarIdx) toFields 0 None [])
                  (\<lambda>els.
                   let destSugarTy = (if fst sugar then TupleType toFields
                                      else TupleType (snd sugar))
                   in Ret (ScalarToTupleExpr expr' destSugarTy els injectionFn)))))))"

subsection \<open>Existentials, superclasses and user conversions\<close>

text \<open>\<^verbatim>\<open>coerceExistential\<close> (lines 2440-2463).\<close>

definition coerceExistential :: "Env \<Rightarrow> Expr \<Rightarrow> Type \<Rightarrow> Locator \<Rightarrow> Expr result" where
  "coerceExistential env expr toType locator =
     (let fromType = getType expr in
      case existentialProtocols toType of
        None \<Rightarrow> Abort ''Not converting to existential?''
      | Some protocols \<Rightarrow>
          if \<not> list_all (\<lambda>proto. fst (conformsToProtocol (tc env) fromType proto)) protocols
          then Abort ''Type does not conform to protocol?''
          else Ret (ErasureExpr expr toType
                      (map (\<lambda>proto. snd (conformsToProtocol (tc env) fromType proto)) protocols)))"

text \<open>
  The coercion to a superclass, written twice in the source (lines 2578-2595 and
  2688-2704): from an archetype first to its superclass, then from the subclass to the
  superclass unless the types are equal already.
\<close>

definition coerceToSuperclass :: "Expr \<Rightarrow> Type \<Rightarrow> Type \<Rightarrow> Expr result" where
  "coerceToSuperclass expr fromType toType =
     (case getAsArchetypeType fromType of
        Some fromArchetype \<Rightarrow>
          if snd fromArchetype = NullType then Abort ''null dereference''
          else
            (let expr' = ArchetypeToSuperExpr expr (snd fromArchetype) in
             if isEqual (getType expr') toType then Ret expr'
             else Ret (DerivedToBaseExpr expr' toType))
      | None \<Rightarrow> Ret (DerivedToBaseExpr expr toType))"

text \<open>
  \<^verbatim>\<open>coerceViaUserConversion\<close> (lines 2465-2549). A null member reference is dereferenced
  by the application finisher.
\<close>

definition coerceViaUserConversion :: "Coerce \<Rightarrow> Env \<Rightarrow> Expr \<Rightarrow> Type \<Rightarrow> Locator \<Rightarrow> Expr result" where
  "coerceViaUserConversion rec env expr toType locator =
     (case overloadChoices (solution (rewriter env)) (withPathElement locator ConversionMember) of
        Some selected \<Rightarrow>
          (case getDecl (fst selected) of
             None \<Rightarrow> Abort ''Not a declaration''
           | Some member \<Rightarrow>
               (let memberRef = buildMemberRef (rewriter env) expr member (snd selected)
                                  locator True;
                    args = TupleExpr [] (TupleType [])
                in case getAsFunctionType (snd selected) of
                     None \<Rightarrow> Abort ''castTo<FunctionType>''
                   | Some fnTy \<Rightarrow>
                       (case memberRef of
                          None \<Rightarrow> Abort ''null dereference''
                        | Some fn \<Rightarrow>
                            (let apply = ApplyExpr Call fn args True NullType in
                             bindR (finishApply (rewriter env) apply (fst (snd fnTy))
                                      (getConstraintLocator env apply))
                               (\<lambda>expr'. rec expr' toType locator)))))
      | None \<Rightarrow>
          (let storedLocator = withPathElement locator ConstructorMember in
           case overloadChoices (solution (rewriter env)) storedLocator of
             None \<Rightarrow> Abort ''knownOverload != solution.overloadChoices.end()''
           | Some selected \<Rightarrow>
               if fst selected = IdentityFunction
               then rec expr toType (withPathElement locator ApplyArgument)
               else
                 (case getDecl (fst selected) of
                    None \<Rightarrow> Abort ''Not a declaration''
                  | Some member \<Rightarrow>
                      (let typeBase = MetatypeExpr None False (MetaTypeType toType) in
                       case buildMemberRef (rewriter env) typeBase member (snd selected)
                              storedLocator True of
                         None \<Rightarrow> Abort ''null dereference''
                       | Some declRef \<Rightarrow>
                           (let apply = ApplyExpr Call declRef expr True NullType in
                            bindR (finishApply (rewriter env) apply toType locator)
                              (\<lambda>expr'. rec expr' toType locator))))))"

subsection \<open>The dispatch\<close>

text \<open>The restrictions that the solver recorded (lines 2563-2615).\<close>

definition coerceToOptional :: "Coerce \<Rightarrow> Expr \<Rightarrow> Type \<Rightarrow> Type list \<Rightarrow> Locator \<Rightarrow> Expr result" where
  "coerceToOptional rec expr toType genericArgs locator =
     (case genericArgs of
        [] \<Rightarrow> Abort ''Invalid index!''
      | valueType # others \<Rightarrow>
          bindR (rec expr valueType locator)
            (\<lambda>expr'. Ret (InjectIntoOptionalExpr (Some expr') toType)))"

definition applyRestriction ::
  "Coerce \<Rightarrow> Env \<Rightarrow> Expr \<Rightarrow> Type \<Rightarrow> Type \<Rightarrow> Locator \<Rightarrow> ConversionRestrictionKind
     \<Rightarrow> Expr result" where
  "applyRestriction rec env expr fromType toType locator restriction =
     (case restriction of
        TupleToTuple \<Rightarrow> Abort ''Can't apply tuple-to-tuple conversion directly''
      | ScalarToTupleRestriction \<Rightarrow>
          (case getAsTupleType toType of
             None \<Rightarrow> Abort ''castTo<TupleType>''
           | Some toTuple \<Rightarrow>
               coerceScalarToTuple rec env expr toTuple
                 (getFieldForScalarInit (decls env) toTuple) locator)
      | Superclass \<Rightarrow> coerceToSuperclass expr fromType toType
      | Existential \<Rightarrow> coerceExistential env expr toType locator
      | ValueToOptional \<Rightarrow>
          (case getAsBoundGenericType toType of
             None \<Rightarrow> Abort ''castTo<BoundGenericType>''
           | Some toGenericType \<Rightarrow>
               if fst toGenericType \<noteq> getOptionalDecl (decls env)
               then Abort ''toGenericType->getDecl() == tc.Context.getOptionalDecl()''
               else coerceToOptional rec expr toType (snd toGenericType) locator)
      | User \<Rightarrow> coerceViaUserConversion rec env expr toType locator)"

text \<open>
  Coercions to a tuple type (lines 2617-2635); \<open>None\<close> when the source goes on to the
  next kind of coercion.
\<close>

definition coerceToTuple ::
  "Coerce \<Rightarrow> Env \<Rightarrow> Expr \<Rightarrow> Type \<Rightarrow> Type \<Rightarrow> Locator \<Rightarrow> Expr result option" where
  "coerceToTuple rec env expr fromType toType locator =
     (case getAsTupleType toType of
        None \<Rightarrow> None
      | Some toTuple \<Rightarrow>
          (let shuffle =
                 (case getAsTupleType fromType of
                    None \<Rightarrow> None
                  | Some fromTuple \<Rightarrow>
                      computeTupleShuffle (tc env) fromTuple toTuple
                        (hasMandatoryTupleLabels (tc env) expr));
               toScalarIdx = getFieldForScalarInit (decls env) toTuple
           in case (shuffle, getAsTupleType fromType) of
                (Some found, Some fromTuple) \<Rightarrow>
                  Some (coerceTupleToTuple rec env expr fromTuple toTuple locator
                          (fst found) (snd found))
              | _ \<Rightarrow>
                  if toScalarIdx \<noteq> - 1
                  then Some (coerceScalarToTuple rec env expr toTuple toScalarIdx locator)
                  else None))"

text \<open>Coercions from an lvalue (lines 2637-2666).\<close>

definition coerceFromLValue ::
  "Coerce \<Rightarrow> Env \<Rightarrow> Expr \<Rightarrow> Type \<Rightarrow> Type \<Rightarrow> Locator \<Rightarrow> Expr result option" where
  "coerceFromLValue rec env expr fromType toType locator =
     (case getAsLValueType fromType of
        None \<Rightarrow> None
      | Some fromLValue \<Rightarrow>
          Some
            (let refined =
                   (case expr of
                      SuperRefExpr t \<Rightarrow>
                        if \<not> isSubtypeOf (tc env) (fst fromLValue) (getRValueType toType)
                        then Abort ''coercing super expr to non-supertype?!''
                        else Ret (SuperRefExpr (LValueType (getRValueType toType) (snd fromLValue)),
                                  getRValueType toType)
                    | _ \<Rightarrow> Ret (expr, fst fromLValue))
             in bindR refined (\<lambda>r.
                  let expr' = (case getAsLValueType toType of
                                 Some toLValue \<Rightarrow>
                                   RequalifyExpr (fst r) (LValueType (snd r) (snd toLValue))
                               | None \<Rightarrow> LoadExpr (fst r) (snd r))
                  in rec expr' toType locator)))"

text \<open>Coercions to an lvalue (lines 2668-2679).\<close>

definition coerceToLValue ::
  "Coerce \<Rightarrow> Expr \<Rightarrow> Type \<Rightarrow> Locator \<Rightarrow> Expr result option" where
  "coerceToLValue rec expr toType locator =
     (case getAsLValueType toType of
        None \<Rightarrow> None
      | Some toLValue \<Rightarrow>
          Some (bindR (rec expr (fst toLValue) locator)
                  (\<lambda>expr'. Ret (MaterializeExpr expr' toType))))"

text \<open>
  Coercion from a subclass to a superclass (lines 2681-2707): the loop over the
  superclasses of the source type ends at a null superclass or at one that equals the
  destination. The loop has the fuel of the recursion.
\<close>

fun reachesSuperclass :: "nat \<Rightarrow> Env \<Rightarrow> Type \<Rightarrow> Type \<Rightarrow> bool result" where
  "reachesSuperclass 0 env t toType = OutOfFuel"
| "reachesSuperclass (Suc n) env t toType =
     (let fromSuperClass = getSuperClassOf (tc env) t in
      if fromSuperClass = NullType then Ret False
      else if isEqual fromSuperClass toType then Ret True
      else reachesSuperclass n env fromSuperClass toType)"

definition coerceSubclass ::
  "nat \<Rightarrow> Env \<Rightarrow> Expr \<Rightarrow> Type \<Rightarrow> Type \<Rightarrow> Expr result option" where
  "coerceSubclass fuel env expr fromType toType =
     (if mayHaveSuperclass (decls env) fromType \<and> getClassOrBoundGenericClass (decls env) toType
      then
        (case reachesSuperclass fuel env fromType toType of
           Ret True \<Rightarrow> Some (coerceToSuperclass expr fromType toType)
         | Ret False \<Rightarrow> None
         | Null ds \<Rightarrow> Some (Null ds)
         | Abort m \<Rightarrow> Some (Abort m)
         | OutOfFuel \<Rightarrow> Some OutOfFuel)
      else None)"

text \<open>
  Coercions to a function type (lines 2709-2749). The result of the inner coercion is
  not checked for null: the implicit closure reads its location, the bridge to a block
  takes it as its operand.
\<close>

definition coerceToFunction ::
  "Coerce \<Rightarrow> Expr \<Rightarrow> Type \<Rightarrow> Type \<Rightarrow> Locator \<Rightarrow> Expr result option" where
  "coerceToFunction rec expr fromType toType locator =
     (case getAsFunctionType toType of
        None \<Rightarrow> None
      | Some (input, res, isAutoClosure, isBlock) \<Rightarrow>
          if isAutoClosure then
            Some (case rec expr res (withPathElement locator Load) of
                    Ret expr' \<Rightarrow> Ret (AutoClosureExpr expr' toType)
                  | Null ds \<Rightarrow> Abort ''null dereference''
                  | Abort m \<Rightarrow> Abort m
                  | OutOfFuel \<Rightarrow> OutOfFuel)
          else
            (let fromFunc = getAsFunctionType fromType in
             if isBlock \<and> (case fromFunc of None \<Rightarrow> True
                            | Some (fi, fr, fa, fromIsBlock) \<Rightarrow> \<not> fromIsBlock)
             then
               Some (let toNonBlockTy = FunctionType input res False False in
                     case rec expr toNonBlockTy locator of
                       Ret expr' \<Rightarrow> Ret (BridgeToBlockExpr (Some expr') toType)
                     | Null ds \<Rightarrow> Ret (BridgeToBlockExpr None toType)
                     | Abort m \<Rightarrow> Abort m
                     | OutOfFuel \<Rightarrow> OutOfFuel)
             else if fromFunc \<noteq> None then Some (Ret (FunctionConversionExpr expr toType))
             else None))"

text \<open>The remaining coercions (lines 2751-2784).\<close>

definition coerceRemaining :: "Coerce \<Rightarrow> Env \<Rightarrow> Expr \<Rightarrow> Type \<Rightarrow> Type \<Rightarrow> Locator \<Rightarrow> Expr result" where
  "coerceRemaining rec env expr fromType toType locator =
     (if isExistentialType toType then coerceExistential env expr toType locator
      else
        (case (case getAsBoundGenericType toType of
                 None \<Rightarrow> None
               | Some toGenericType \<Rightarrow>
                   if fst toGenericType = getOptionalDecl (decls env)
                   then Some (coerceToOptional rec expr toType (snd toGenericType) locator)
                   else None) of
           Some r \<Rightarrow> r
         | None \<Rightarrow>
             if getNominalOrBoundGenericNominal (decls env) fromType
                \<or> getAsArchetypeType fromType \<noteq> None
                \<or> getNominalOrBoundGenericNominal (decls env) toType
                \<or> getAsArchetypeType toType \<noteq> None
             then coerceViaUserConversion rec env expr toType locator
             else if getAsMetaTypeType fromType \<noteq> None \<and> getAsMetaTypeType toType \<noteq> None
             then Ret (MetatypeConversionExpr expr (getDesugaredType toType))
             else Abort ''Unhandled coercion''))"

text \<open>
  \<^verbatim>\<open>ExprRewriter::coerceToType\<close> (lines 2552-2785): the first kind of coercion that
  applies is the result. The type of the expression is dereferenced for the first
  comparison (line 2560): an expression without a type stops the run there.
\<close>

definition firstOf :: "'a option list \<Rightarrow> 'a \<Rightarrow> 'a" where
  "firstOf steps otherwise = (case List.map_filter id steps of [] \<Rightarrow> otherwise | r # rs \<Rightarrow> r)"

definition coerceToTypeBody :: "nat \<Rightarrow> Coerce \<Rightarrow> Env \<Rightarrow> Expr \<Rightarrow> Type \<Rightarrow> Locator \<Rightarrow> Expr result" where
  "coerceToTypeBody fuel rec env expr toType locator =
     (let fromType = getType expr in
      if fromType = NullType then Abort ''null dereference''
      else if isEqual fromType toType then Ret expr
      else
        (case constraintRestrictions (solution (rewriter env))
                (getCanonicalType fromType, getCanonicalType toType) of
           Some restriction \<Rightarrow> applyRestriction rec env expr fromType toType locator restriction
         | None \<Rightarrow>
             firstOf
               [coerceToTuple rec env expr fromType toType locator,
                coerceFromLValue rec env expr fromType toType locator,
                coerceToLValue rec expr toType locator,
                coerceSubclass fuel env expr fromType toType,
                coerceToFunction rec expr fromType toType locator]
               (coerceRemaining rec env expr fromType toType locator)))"

fun coerceToType :: "nat \<Rightarrow> Env \<Rightarrow> Expr \<Rightarrow> Type \<Rightarrow> Locator \<Rightarrow> Expr result" where
  "coerceToType 0 env expr toType locator = OutOfFuel"
| "coerceToType (Suc fuel) env expr toType locator =
     coerceToTypeBody fuel (coerceToType fuel env) env expr toType locator"

section \<open>Checked casts\<close>

text \<open>
  \<^verbatim>\<open>checkCheckedCastExpr\<close> (lines 1737-1763) type-checks the subexpression, coerces it to
  an rvalue and stores it in the cast; the result is the kind of the cast and the
  subexpression of the cast afterwards. \<^verbatim>\<open>typeCheckExpression\<close> is called without a
  contextual type.
\<close>

definition checkCheckedCastExpr :: "Env \<Rightarrow> Expr \<Rightarrow> Type \<Rightarrow> CheckedCastKind \<times> Expr" where
  "checkCheckedCastExpr env sub toType =
     (let checked = typeCheckExpression (tc env) sub NullType in
      if fst checked then (Unresolved, sub)
      else
        (case coerceToRValue (tc env) (snd checked) of
           None \<Rightarrow> (Unresolved, sub)
         | Some sub' \<Rightarrow> (typeCheckCheckedCast (tc env) (getType sub') toType sub', sub')))"

text \<open>
  Modelled from the spec: \<^verbatim>\<open>OptionalType::get\<close> is the distinguished bound-generic type
  over the optional declaration.
\<close>

definition OptionalTypeGet :: "Env \<Rightarrow> Type \<Rightarrow> Type" where
  "OptionalTypeGet env t = BoundGenericType (getOptionalDecl (decls env)) [t]"

text \<open>
  \<^verbatim>\<open>checkAsCastExpr\<close> (lines 1798-1846) on a conditional checked cast: the diagnostics it
  emits itself, and its result. The coerced subexpression is wrapped without a check for
  null.
\<close>

definition checkAsCastExpr :: "nat \<Rightarrow> Env \<Rightarrow> Expr \<Rightarrow> Diag list \<times> Expr result" where
  "checkAsCastExpr fuel env expr =
     (case expr of
        ConditionalCheckedCastExpr sub toType kind implicit ty \<Rightarrow>
          (let checked = checkCheckedCastExpr env sub toType;
               castKind = fst checked; sub' = snd checked
           in case castKind of
                Unresolved \<Rightarrow> ([], Null [])
              | InvalidCoercible \<Rightarrow>
                  (let ds = (if \<not> implicit then [downcast_to_supertype] else []) in
                   if ty = NullType then (ds, Abort ''null dereference'')
                   else if isEqual ty (getType sub') then (ds, Ret sub')
                   else
                     (case coerceToType fuel env sub' toType
                             (getConstraintLocator env
                                (ConditionalCheckedCastExpr sub' toType kind implicit ty)) of
                        Ret coerced \<Rightarrow>
                          (ds, Ret (InjectIntoOptionalExpr (Some coerced) (OptionalTypeGet env toType)))
                      | Null ds2 \<Rightarrow>
                          (ds @ ds2,
                           Ret (InjectIntoOptionalExpr None (OptionalTypeGet env toType)))
                      | Abort m \<Rightarrow> (ds, Abort m)
                      | OutOfFuel \<Rightarrow> (ds, OutOfFuel)))
              | _ \<Rightarrow> ([], Ret (ConditionalCheckedCastExpr sub' toType castKind implicit ty)))
      | _ \<Rightarrow> ([], Abort ''cast<CheckedCastExpr>''))"

text \<open>\<^verbatim>\<open>visitConditionalCheckedCastExpr\<close> (lines 1848-1855).\<close>

definition visitConditionalCheckedCastExpr :: "nat \<Rightarrow> Env \<Rightarrow> Expr \<Rightarrow> Diag list \<times> Expr result" where
  "visitConditionalCheckedCastExpr fuel env expr =
     (case expr of
        ConditionalCheckedCastExpr sub toType kind implicit ty \<Rightarrow>
          checkAsCastExpr fuel env
            (ConditionalCheckedCastExpr sub toType kind implicit
               (getOptionalType (tc env) toType))
      | _ \<Rightarrow> ([], Abort ''cast<ConditionalCheckedCastExpr>''))"

section \<open>The traversal driver\<close>

text \<open>
  The walker of \<^verbatim>\<open>applySolution\<close> (lines 3083-3217) has the depth counter of the left
  sides of assignments, an \<^verbatim>\<open>unsigned\<close>; the model adds the diagnostics that the walker
  emits itself. The rewriter's visiting methods and the type checker's work on closures
  are parameters.
\<close>

record Walker =
  LeftSideOfAssignment :: "32 word"
  emitted :: "Diag list"

record Visits =
  visit :: "Expr \<Rightarrow> Expr option"
  visitNewArrayExpr :: "Expr \<Rightarrow> Expr"
  visitIfExpr :: "Expr \<Rightarrow> Expr"
  visitAssignExpr :: "Expr \<Rightarrow> Expr option"
  simplifyExprType :: "Expr \<Rightarrow> Expr"
  coerceParamsFails :: "Expr \<Rightarrow> bool"
  coerceClosureBody :: "Expr \<Rightarrow> Expr \<Rightarrow> Expr option"
  typeCheckClosureBody :: "Expr \<Rightarrow> Expr"

text \<open>
  Modelled from the spec: the tree walk (\<^verbatim>\<open>ASTWalker\<close>, outside the sources) calls the
  pre-order hook on a node; when the hook asks for it, it walks the node's children in
  order, puts the results in their place and calls the post-order hook; a null result
  anywhere ends the walk of the node with null. \<open>walked\<close> is the end of such a walk,
  after the last child: \<^verbatim>\<open>walkToExprPost\<close> (lines 3199-3201) on the node with its new
  children.
\<close>

definition walked :: "Visits \<Rightarrow> ('a \<Rightarrow> Expr) \<Rightarrow> 'a option \<times> Walker \<Rightarrow> Expr option \<times> Walker" where
  "walked v rebuild r =
     (case r of (None, w1) \<Rightarrow> (None, w1) | (Some c, w1) \<Rightarrow> (visit v (rebuild c), w1))"

text \<open>
  The walk of a node: \<^verbatim>\<open>walkToExprPre\<close> (lines 3093-3197) first, for the node kinds it
  treats itself; the other kinds are handed back with \<^verbatim>\<open>true\<close>, an expression that
  discards an assignment after the check of the depth counter.
\<close>

fun walk :: "Visits \<Rightarrow> Expr \<Rightarrow> Walker \<Rightarrow> Expr option \<times> Walker"
  and walkAll :: "Visits \<Rightarrow> Expr list \<Rightarrow> Walker \<Rightarrow> Expr list option \<times> Walker" where
  "walk v (NewArrayExpr t) w = (Some (visitNewArrayExpr v (NewArrayExpr t)), w)"
| "walk v (IfExpr c thenExpr elseExpr t) w =
     (case walk v thenExpr w of
        (thenResult, w1) \<Rightarrow>
          (case walk v elseExpr w1 of
             (elseResult, w2) \<Rightarrow>
               (Some (visitIfExpr v
                        (IfExpr c (case thenResult of Some e \<Rightarrow> e | None \<Rightarrow> thenExpr)
                           (case elseResult of Some e \<Rightarrow> e | None \<Rightarrow> elseExpr) t)),
                w2)))"
| "walk v (ConditionalCheckedCastExpr e ct k i t) w =
     (visit v (ConditionalCheckedCastExpr e ct k i t), w)"
| "walk v (IsaExpr e ct k t) w = (visit v (IsaExpr e ct k t), w)"
| "walk v (DefaultValueExpr e t) w = (Some (DefaultValueExpr e t), w)"
| "walk v (ClosureExpr body t) w =
     (let closure = simplifyExprType v (ClosureExpr body t) in
      if coerceParamsFails v closure then (None, w)
      else
        (case body of
           Some single \<Rightarrow>
             (case walk v single w of
                (None, w1) \<Rightarrow> (None, w1)
              | (Some walkedBody, w1) \<Rightarrow>
                  (case coerceClosureBody v closure walkedBody of
                     None \<Rightarrow> (None, w1)
                   | Some coerced \<Rightarrow> (Some (ClosureExpr (Some coerced) (getType closure)), w1)))
         | None \<Rightarrow> (Some (typeCheckClosureBody v closure), w)))"
| "walk v (MetatypeExpr base hasTypeRepr t) w =
     (if hasTypeRepr then (Some (MetatypeExpr base hasTypeRepr t), w)
      else
        (case base of
           None \<Rightarrow> (visit v (MetatypeExpr None hasTypeRepr t), w)
         | Some b \<Rightarrow> walked v (\<lambda>c. MetatypeExpr (Some c) hasTypeRepr t) (walk v b w)))"
| "walk v (AssignExpr dest src t) w =
     (case walk v dest (w\<lparr> LeftSideOfAssignment := LeftSideOfAssignment w + 1 \<rparr>) of
        (None, w1) \<Rightarrow> (None, w1)
      | (Some dest', w1) \<Rightarrow>
          (case walk v src (w1\<lparr> LeftSideOfAssignment := LeftSideOfAssignment w1 - 1 \<rparr>) of
             (None, w2) \<Rightarrow> (None, w2)
           | (Some src', w2) \<Rightarrow> (visitAssignExpr v (AssignExpr dest' src' t), w2)))"
| "walk v (DiscardAssignmentExpr t) w =
     (visit v (DiscardAssignmentExpr t),
      if LeftSideOfAssignment w = 0
      then w\<lparr> emitted := emitted w @ [discard_expr_outside_of_assignment] \<rparr> else w)"
| "walk v (DeclRefExpr d t) w = (visit v (DeclRefExpr d t), w)"
| "walk v (SuperRefExpr t) w = (visit v (SuperRefExpr t), w)"
| "walk v (LiteralExpr k t) w = (visit v (LiteralExpr k t), w)"
| "walk v (MagicIdentifierLiteralExpr k l i t) w = (visit v (MagicIdentifierLiteralExpr k l i t), w)"
| "walk v (ParenExpr e t) w = walked v (\<lambda>c. ParenExpr c t) (walk v e w)"
| "walk v (TupleExpr es t) w = walked v (\<lambda>cs. TupleExpr cs t) (walkAll v es w)"
| "walk v (ApplyExpr k f a i t) w =
     (case walk v f w of
        (None, w1) \<Rightarrow> (None, w1)
      | (Some f', w1) \<Rightarrow> walked v (\<lambda>c. ApplyExpr k f' c i t) (walk v a w1))"
| "walk v (LoadExpr e t) w = walked v (\<lambda>c. LoadExpr c t) (walk v e w)"
| "walk v (RequalifyExpr e t) w = walked v (\<lambda>c. RequalifyExpr c t) (walk v e w)"
| "walk v (MaterializeExpr e t) w = walked v (\<lambda>c. MaterializeExpr c t) (walk v e w)"
| "walk v (ArchetypeToSuperExpr e t) w = walked v (\<lambda>c. ArchetypeToSuperExpr c t) (walk v e w)"
| "walk v (DerivedToBaseExpr e t) w = walked v (\<lambda>c. DerivedToBaseExpr c t) (walk v e w)"
| "walk v (ErasureExpr e t cs) w = walked v (\<lambda>c. ErasureExpr c t cs) (walk v e w)"
| "walk v (InjectIntoOptionalExpr sub t) w =
     (case sub of
        None \<Rightarrow> (visit v (InjectIntoOptionalExpr None t), w)
      | Some e \<Rightarrow> walked v (\<lambda>c. InjectIntoOptionalExpr (Some c) t) (walk v e w))"
| "walk v (FunctionConversionExpr e t) w = walked v (\<lambda>c. FunctionConversionExpr c t) (walk v e w)"
| "walk v (BridgeToBlockExpr sub t) w =
     (case sub of
        None \<Rightarrow> (visit v (BridgeToBlockExpr None t), w)
      | Some e \<Rightarrow> walked v (\<lambda>c. BridgeToBlockExpr (Some c) t) (walk v e w))"
| "walk v (MetatypeConversionExpr e t) w = walked v (\<lambda>c. MetatypeConversionExpr c t) (walk v e w)"
| "walk v (AutoClosureExpr e t) w = walked v (\<lambda>c. AutoClosureExpr c t) (walk v e w)"
| "walk v (ScalarToTupleExpr e t els ij) w =
     walked v (\<lambda>c. ScalarToTupleExpr c t els ij) (walk v e w)"
| "walk v (TupleShuffleExpr e m ow cd t ij) w =
     walked v (\<lambda>c. TupleShuffleExpr c m ow cd t ij) (walk v e w)"
| "walk v (OtherExpr k es t) w = walked v (\<lambda>cs. OtherExpr k cs t) (walkAll v es w)"
| "walkAll v [] w = (Some [], w)"
| "walkAll v (e # es) w =
     (case walk v e w of
        (None, w1) \<Rightarrow> (None, w1)
      | (Some e', w1) \<Rightarrow>
          (case walkAll v es w1 of
             (None, w2) \<Rightarrow> (None, w2)
           | (Some es', w2) \<Rightarrow> (Some (e' # es'), w2)))"

text \<open>
  \<^verbatim>\<open>applySolution\<close> (lines 3212-3216): a new walker walks the expression; the rewriter's
  \<^verbatim>\<open>finalize\<close> follows.
\<close>

definition applySolutionWalk :: "Visits \<Rightarrow> Expr \<Rightarrow> Expr option \<times> Walker" where
  "applySolutionWalk v expr = walk v expr \<lparr> LeftSideOfAssignment = 0, emitted = [] \<rparr>"

section \<open>Notions of the proofs\<close>

text \<open>
  The re-sugared field of a destination field that takes the source element of its own
  index, and what the loop leaves at that index: the element as it was when the types
  agree, the result of its coercion otherwise.
\<close>

definition sugarOf :: "Expr list \<Rightarrow> TupleTypeElt list \<Rightarrow> nat \<Rightarrow> TupleTypeElt" where
  "sugarOf es toFields i =
     TupleTypeElt (getType (es ! i)) (getName (toFields ! i))
       (getDefaultArgKind (toFields ! i)) (isVararg (toFields ! i))"

definition convertedAt ::
  "Coerce \<Rightarrow> TupleTypeElt list \<Rightarrow> TupleTypeElt list \<Rightarrow> Locator \<Rightarrow> Expr list \<Rightarrow> Expr list \<Rightarrow> nat \<Rightarrow> bool" where
  "convertedAt rec fromFields toFields locator es0 es i =
     (if isEqual (getEltType (fromFields ! i)) (getEltType (toFields ! i)) then es ! i = es0 ! i
      else rec (es0 ! i) (getEltType (toFields ! i)) (withPathElement locator (TupleElement i))
             = Ret (es ! i))"


text \<open>A rewriter none of whose visits fails.\<close>

definition neverFails :: "Visits \<Rightarrow> bool" where
  "neverFails v =
     ((\<forall>e. visit v e \<noteq> None) \<and> (\<forall>e. visitAssignExpr v e \<noteq> None)
      \<and> (\<forall>e. \<not> coerceParamsFails v e) \<and> (\<forall>c b. coerceClosureBody v c b \<noteq> None))"





section \<open>A small program\<close>

text \<open>
  Collaborators for the executions below. The classes \<open>Derived\<close> and \<open>Base\<close>, the first
  a subclass of the second; a struct \<open>IntStruct\<close> that is built from a builtin integer
  literal (protocol 30) and whose array bound is read by a builtin method; a struct
  \<open>Celsius\<close> that is built from an integer literal of type \<open>IntStruct\<close> (protocol 40);
  the empty protocol composition \<open>AnyTy\<close>; the optional declaration 100. The literal
  protocols have other members before the conversion function, one of them (36) not a
  function; the witness of a requirement is the declaration after it.
\<close>

definition Derived :: Type where "Derived = NominalType 1"
definition Base :: Type where "Base = NominalType 2"
definition IntStruct :: Type where "IntStruct = NominalType 3"
definition Celsius :: Type where "Celsius = NominalType 4"
definition AnyTy :: Type where "AnyTy = ProtocolCompositionType []"

definition funcs0 :: "DeclId \<Rightarrow> FuncDecl option" where
  "funcs0 d =
     (if d = 7 then
        Some \<lparr> getFuncName = ''advance'',
               getFuncType = FunctionType (LValueType IntStruct 0)
                 (FunctionType IntStruct (FunctionType IntStruct IntStruct False False) False False)
                 False False,
               isInvalid = False, isInstanceMember = True, getNaturalArgumentCount = 3 \<rparr>
      else if d = 21 then
        Some \<lparr> getFuncName = ''getArrayBoundValue'',
               getFuncType = FunctionType IntStruct
                 (FunctionType (TupleType []) IntStruct False False) False False,
               isInvalid = False, isInstanceMember = True, getNaturalArgumentCount = 2 \<rparr>
      else if d = 23 then
        Some \<lparr> getFuncName = ''_getBuiltinArrayBoundValue'',
               getFuncType = FunctionType IntStruct
                 (FunctionType (TupleType []) (BuiltinIntegerType 64) False False) False False,
               isInvalid = False, isInstanceMember = True, getNaturalArgumentCount = 2 \<rparr>
      else if d = 34 \<or> d = 44 then
        Some \<lparr> getFuncName = ''description'',
               getFuncType = FunctionType (TupleType []) IntStruct False False,
               isInvalid = False, isInstanceMember = False, getNaturalArgumentCount = 1 \<rparr>
      else if d = 31 \<or> d = 32 then
        Some \<lparr> getFuncName = ''_convertFromBuiltinIntegerLiteral'',
               getFuncType = FunctionType (BuiltinIntegerType 64) IntStruct False False,
               isInvalid = False, isInstanceMember = False, getNaturalArgumentCount = 1 \<rparr>
      else if d = 41 \<or> d = 42 then
        Some \<lparr> getFuncName = ''convertFromIntegerLiteral'',
               getFuncType = FunctionType IntStruct Celsius False False,
               isInvalid = False, isInstanceMember = False, getNaturalArgumentCount = 1 \<rparr>
      else None)"

definition decls0 :: Decls where
  "decls0 =
     \<lparr> getDefaultArg = (\<lambda>owner index.
         (if index = 0 then DAK_Normal else if index = 1 then DAK_File
          else if index = 2 then DAK_Line else if index = 3 then DAK_Column else DAK_None,
          IntStruct)),
       asFuncDecl = funcs0,
       getMembers = (\<lambda>p. if p = 20 then [21] else if p = 30 then [36, 34, 31]
                          else if p = 40 then [44, 41] else []),
       getWitness = (\<lambda>conformance requirement. Suc requirement),
       getOptionalDecl = 100,
       getFieldForScalarInit = (\<lambda>flds. - 1),
       getVarargBaseTy = (\<lambda>elt. case getEltType elt of ArraySliceType b \<Rightarrow> b | t \<Rightarrow> t),
       mayHaveSuperclass = (\<lambda>t. t = Derived \<or> t = Base),
       getClassOrBoundGenericClass = (\<lambda>t. t = Derived \<or> t = Base),
       getNominalOrBoundGenericNominal =
         (\<lambda>t. case t of NominalType d \<Rightarrow> True | BoundGenericType d targs \<Rightarrow> True | _ \<Rightarrow> False),
       getLoc = (\<lambda>e. 0),
       getStartLoc = (\<lambda>e. 0) \<rparr>"

definition tc0 :: TypeChecker where
  "tc0 =
     \<lparr> typeCheckExpression = (\<lambda>e t. (False, if t = NullType then e else setType t e)),
       conformsToProtocol = (\<lambda>t p.
         if t = IntStruct \<and> p = 30 then (True, Some 1)
         else if t = Celsius \<and> p = 40 then (True, Some 2)
         else (False, None)),
       getWitnessType = (\<lambda>t p c n. if t = Celsius \<and> p = 40 then IntStruct else NullType),
       getProtocol = (\<lambda>k. case k of LogicValue \<Rightarrow> Some 10 | ArrayBound \<Rightarrow> Some 20),
       getTypeOfMemberReference = (\<lambda>baseTy member.
         if member = 32 then FunctionType (BuiltinIntegerType 64) IntStruct False False
         else if member = 42 then FunctionType IntStruct Celsius False False
         else NullType),
       getSuperClassOf = (\<lambda>t. if t = Derived then Base else NullType),
       isSubtypeOf = (\<lambda>a b. a = b \<or> (a = Derived \<and> b = Base)),
       buildArrayInjectionFnRef = (\<lambda>sliceTy boundTy loc.
         Some (DeclRefExpr 50 (FunctionType boundTy sliceTy False False))),
       coerceToRValue = (\<lambda>e. case getAsLValueType (getType e) of
                                 Some lv \<Rightarrow> Some (LoadExpr e (fst lv)) | None \<Rightarrow> Some e),
       lookupMember = (\<lambda>t n. if t = IntStruct \<and> n = ''_getBuiltinArrayBoundValue''
                              then [23] else []),
       typeCheckCheckedCast = (\<lambda>fromTy toTy sub.
         if isEqual fromTy toTy \<or> isExistentialType toTy \<or> (fromTy = Derived \<and> toTy = Base)
         then InvalidCoercible else Downcast),
       getOptionalType = (\<lambda>t. BoundGenericType 100 [t]),
       computeTupleShuffle = (\<lambda>fromFields toFields labels.
         if length fromFields = length toFields
         then Some (map int [0 ..< length toFields], [])
         else (case toFields of
                 [f] \<Rightarrow> if isVararg f then Some ([FirstVariadic], [0 ..< length fromFields])
                        else None
               | _ \<Rightarrow> None)),
       hasMandatoryTupleLabels = (\<lambda>e. False) \<rparr>"

text \<open>
  The member reference is the member applied to its base, of the opened type; the
  finished application has the result type of its function.
\<close>

definition rewriter0 :: ExprRewriter where
  "rewriter0 =
     \<lparr> solution = \<lparr> constraintRestrictions =
                      (\<lambda>p. if p = (Derived, Base) then Some Superclass else None),
                    overloadChoices = (\<lambda>l. None) \<rparr>,
       buildMemberRef = (\<lambda>base member openedType locator implicit.
         Some (ApplyExpr DotSyntaxCall
                 (DeclRefExpr member (FunctionType (getType base) openedType False False))
                 base implicit openedType)),
       finishApply = (\<lambda>apply openedType locator.
         case apply of
           ApplyExpr k fn arg implicit t \<Rightarrow>
             (case getAsFunctionType (getType fn) of
                Some fnTy \<Rightarrow> Ret (ApplyExpr k fn arg implicit (fst (snd fnTy)))
              | None \<Rightarrow> Null [])
         | _ \<Rightarrow> Null []),
       findDefaultArgsOwner = (\<lambda>l. Some 60) \<rparr>"

definition env0 :: Env where
  "env0 =
     \<lparr> decls = decls0, tc = tc0, rewriter = rewriter0,
       getConstraintLocator = (\<lambda>e. (0, [])),
       solveWitnessCall = (\<lambda>argTy inputTy.
         if isEqual argTy inputTy then Some rewriter0 else None) \<rparr>"

text \<open>
  A rewriter whose visit fails on the reference to declaration 66 and returns every
  other node as it is.
\<close>

definition visits0 :: Visits where
  "visits0 =
     \<lparr> visit = (\<lambda>e. case e of DeclRefExpr d t \<Rightarrow> if d = 66 then None else Some e
                      | _ \<Rightarrow> Some e),
       visitNewArrayExpr = (\<lambda>e. e),
       visitIfExpr = (\<lambda>e. e),
       visitAssignExpr = (\<lambda>e. Some e),
       simplifyExprType = (\<lambda>e. e),
       coerceParamsFails = (\<lambda>e. False),
       coerceClosureBody = (\<lambda>closure body. Some body),
       typeCheckClosureBody = (\<lambda>e. e) \<rparr>"

text \<open>Unnamed fields, a pair of them, and a variadic field.\<close>

definition plainField :: "Type \<Rightarrow> TupleTypeElt" where
  "plainField t = TupleTypeElt t [] DAK_None False"

definition pairOf :: "Type \<Rightarrow> Type \<Rightarrow> Type" where
  "pairOf a b = TupleType [plainField a, plainField b]"

definition variadicField :: "Type \<Rightarrow> TupleTypeElt" where
  "variadicField t = TupleTypeElt (ArraySliceType t) ''rest'' DAK_None True"





section \<open>Properties\<close>

subsection \<open>Types and nodes\<close>

lemma isEqual_refl: "isEqual t t"
  by (simp add: isEqual_def)

lemma isEqual_sym: "isEqual a b \<Longrightarrow> isEqual b a"
  by (simp add: isEqual_def)

lemma isEqual_trans: "isEqual a b \<Longrightarrow> isEqual b c \<Longrightarrow> isEqual a c"
  by (simp add: isEqual_def)

lemma canonical_desugared: "getCanonicalType (getDesugaredType t) = getCanonicalType t"
  by (induction t rule: getDesugaredType.induct) simp_all





section \<open>The tracker and the default arguments\<close>

lemma dm_find_erase_same: "dm_find (dm_erase apps p) p = None"
  by (induction apps) (auto simp: dm_find_def dm_erase_def)

lemma dm_find_erase_other: "q \<noteq> p \<Longrightarrow> dm_find (dm_erase apps p) q = dm_find apps q"
  by (induction apps) (auto simp: dm_find_def dm_erase_def)

lemma dm_find_insert_fresh: "dm_find apps p = None \<Longrightarrow> dm_find (dm_insert apps p c) p = Some c"
  by (induction apps) (auto simp: dm_find_def dm_insert_def)

lemma dm_find_insert_other: "q \<noteq> p \<Longrightarrow> dm_find (dm_insert apps p c) q = dm_find apps q"
  by (induction apps) (auto simp: dm_find_def dm_insert_def)

lemma dm_find_erase_absent: "dm_find apps q = None \<Longrightarrow> dm_find (dm_erase apps p) q = None"
  by (cases "q = p") (simp_all add: dm_find_erase_same dm_find_erase_other)

text \<open>
  The steps of the tracker. A new member reference that applies an instance method,
  referenced directly, to an lvalue is tracked with the method's natural argument count
  minus one; a member reference whose function is not a direct reference to a
  declaration is not tracked. An application of a tracked node (whose count the source
  asserts to be positive) removes the entry; when the count was greater than one, the
  resulting node is tracked with the count minus one. When no key is null,
  \<open>finalize\<close> emits one diagnostic of partial application per entry; it emits none
  exactly when the tracker is empty.
\<close>

lemma tracker_steps:
  "(getAsLValueType (getType arg) \<noteq> None \<longrightarrow> asFuncDecl ds d = Some fn \<longrightarrow>
      isInstanceMember fn \<longrightarrow> dm_find apps memberPtr = None \<longrightarrow>
      dm_find (trackValueTypeMember ds apps memberPtr (ApplyExpr k (DeclRefExpr d t) arg imp ty))
        memberPtr = Some (getNaturalArgumentCount fn - 1))
   \<and> ((\<forall>d t. f \<noteq> DeclRefExpr d t) \<longrightarrow>
        trackValueTypeMember ds apps memberPtr (ApplyExpr k f arg imp ty) = apps)
   \<and> (dm_find apps fnPtr = Some count \<longrightarrow> count > 0 \<longrightarrow>
        (\<exists>apps'. visitApplyExpr_applications apps fnPtr result = Ret apps'
           \<and> (count > 1 \<longrightarrow> (result = fnPtr \<or> dm_find apps result = None) \<longrightarrow>
                dm_find apps' result = Some (count - 1))
           \<and> (result \<noteq> fnPtr \<or> \<not> count > 1 \<longrightarrow> dm_find apps' fnPtr = None)))
   \<and> (\<not> list_ex (\<lambda>unapplied. fst unapplied = 0) apps \<longrightarrow>
        finalize apps
          = Ret (map (\<lambda>unapplied. (fst unapplied, partial_application_of_value_type_method))
                   apps))
   \<and> ((finalize apps = Ret []) = (apps = []))"
proof (intro conjI impI)
  assume "getAsLValueType (getType arg) \<noteq> None" "asFuncDecl ds d = Some fn"
    "isInstanceMember fn" "dm_find apps memberPtr = None"
  then show "dm_find (trackValueTypeMember ds apps memberPtr
      (ApplyExpr k (DeclRefExpr d t) arg imp ty)) memberPtr = Some (getNaturalArgumentCount fn - 1)"
    by (auto simp: trackValueTypeMember_def dm_find_insert_fresh split: option.splits)
next
  assume "\<forall>d t. f \<noteq> DeclRefExpr d t"
  then show "trackValueTypeMember ds apps memberPtr (ApplyExpr k f arg imp ty) = apps"
    by (cases f) (simp_all add: trackValueTypeMember_def split: option.splits)
next
  assume found: "dm_find apps fnPtr = Some count" and pos: "count > 0"
  let ?apps' = "if count > 1 then dm_insert (dm_erase apps fnPtr) result (count - 1)
                else dm_erase apps fnPtr"
  have r: "visitApplyExpr_applications apps fnPtr result = Ret ?apps'"
    using found pos by (simp add: visitApplyExpr_applications_def Let_def)
  have a: "count > 1 \<longrightarrow> (result = fnPtr \<or> dm_find apps result = None) \<longrightarrow>
           dm_find ?apps' result = Some (count - 1)"
    by (auto simp: dm_find_insert_fresh dm_find_erase_same dm_find_erase_absent)
  have b: "result \<noteq> fnPtr \<or> \<not> count > 1 \<longrightarrow> dm_find ?apps' fnPtr = None"
  proof (cases "count > 1")
    case True
    show ?thesis
    proof
      assume "result \<noteq> fnPtr \<or> \<not> count > 1"
      with True have ne: "fnPtr \<noteq> result" by auto
      show "dm_find ?apps' fnPtr = None"
        using True by (simp add: dm_find_insert_other[OF ne] dm_find_erase_same)
    qed
  next
    case False
    then show ?thesis by (simp only: if_False dm_find_erase_same simp_thms)
  qed
  show "\<exists>apps'. visitApplyExpr_applications apps fnPtr result = Ret apps'
           \<and> (count > 1 \<longrightarrow> (result = fnPtr \<or> dm_find apps result = None) \<longrightarrow>
                dm_find apps' result = Some (count - 1))
           \<and> (result \<noteq> fnPtr \<or> \<not> count > 1 \<longrightarrow> dm_find apps' fnPtr = None)"
    by (rule exI[of _ ?apps']) (intro conjI r a b)
next
  assume "\<not> list_ex (\<lambda>unapplied. fst unapplied = 0) apps"
  then show "finalize apps
      = Ret (map (\<lambda>unapplied. (fst unapplied, partial_application_of_value_type_method)) apps)"
    by (simp add: finalize_def)
next
  show "(finalize apps = Ret []) = (apps = [])"
    by (cases apps) (auto simp: finalize_def)
qed

text \<open>
  Claim C6. \<open>getCallerDefaultArg\<close> returns null exactly for the kind \<open>Normal\<close>; for the
  kinds \<open>File\<close>, \<open>Line\<close> and \<open>Column\<close> it type-checks a new implicit magic-identifier
  literal of that kind, at the location given, against the parameter's type, asserts
  that the check did not fail and returns the checked literal; the kind \<open>None\<close> runs
  into \<^verbatim>\<open>llvm_unreachable\<close>.
\<close>

theorem getCallerDefaultArg_kinds:
  "(getCallerDefaultArg env loc owner index = Null [])
     = (fst (getDefaultArg (decls env) owner index) = DAK_Normal)
   \<and> (fst (getDefaultArg (decls env) owner index) = DAK_None \<longrightarrow>
        getCallerDefaultArg env loc owner index = Abort ''No default argument here?'')
   \<and> (\<forall>magicKind. magicKindOf (fst (getDefaultArg (decls env) owner index)) = Some magicKind \<longrightarrow>
        getCallerDefaultArg env loc owner index =
          (let r = typeCheckExpression (tc env)
                     (MagicIdentifierLiteralExpr magicKind loc True NullType)
                     (snd (getDefaultArg (decls env) owner index))
           in if fst r then Abort ''conversion cannot fail'' else Ret (snd r)))"
  by (cases "fst (getDefaultArg (decls env) owner index)")
     (simp_all add: getCallerDefaultArg_def magicKindOf_def Let_def)


section \<open>Literals and the builtin protocols\<close>











section \<open>The coercion engine: the first comparison and the shuffles\<close>

lemma sentinels [simp]:
  "DefaultInitialize < 0" "FirstVariadic < 0" "CallerDefaultInitialize < 0"
  "DefaultInitialize \<noteq> FirstVariadic" "CallerDefaultInitialize \<noteq> FirstVariadic"
  "DefaultInitialize \<noteq> int i" "FirstVariadic \<noteq> int i"
  "int i \<noteq> DefaultInitialize" "int i \<noteq> FirstVariadic" "int i \<noteq> CallerDefaultInitialize"
  "FirstVariadic \<noteq> DefaultInitialize" "FirstVariadic \<noteq> CallerDefaultInitialize"
  "\<not> 0 \<le> DefaultInitialize" "\<not> 0 \<le> FirstVariadic" "\<not> 0 \<le> CallerDefaultInitialize"
  by (simp_all add: DefaultInitialize_def FirstVariadic_def CallerDefaultInitialize_def)

lemma shuffleField_sources:
  assumes "shuffleField rec env expr fromFields toFields locator i st = Ret st'"
  shows "length (sources st') = length (sources st)"
    and "i < length (sources st)"
    and "j \<noteq> i \<Longrightarrow> sources st' ! j = sources st ! j"
    and "sources st' ! i = sources st ! i
         \<or> (sources st ! i = DefaultInitialize \<and> sources st' ! i = CallerDefaultInitialize)"
    and "sources st ! i = FirstVariadic \<Longrightarrow> i = length toFields - 1"
    and "0 \<le> sources st ! i \<Longrightarrow> nat (sources st ! i) < length fromFields"
    and "hasVarArg st' = (hasVarArg st \<or> sources st ! i = FirstVariadic)"
    and "anythingShuffled st' = (anythingShuffled st \<or> sources st ! i \<noteq> int i)"
  using assms
  unfolding shuffleField_def Let_def
  by (auto simp: DefaultInitialize_def FirstVariadic_def CallerDefaultInitialize_def
           split: if_splits result.splits option.splits)

lemma shuffleField_elements:
  assumes "shuffleField rec env expr fromFields toFields locator i st = Ret st'"
  shows "elements st' = elements st
         \<or> (\<exists>es c. elements st = Some es \<and> 0 \<le> sources st ! i
                \<and> nat (sources st ! i) < length es
                \<and> \<not> isEqual (getEltType (fromFields ! nat (sources st ! i))) (getEltType (toFields ! i))
                \<and> rec (es ! nat (sources st ! i)) (getEltType (toFields ! i))
                      (withPathElement locator (TupleElement (nat (sources st ! i)))) = Ret c
                \<and> elements st' = Some (es[nat (sources st ! i) := c]))"
    and "sources st ! i < 0 \<or> isEqual (getEltType (fromFields ! nat (sources st ! i))) (getEltType (toFields ! i))
         \<Longrightarrow> elements st' = elements st"
    and "0 \<le> sources st ! i \<Longrightarrow> elements st = Some es \<Longrightarrow> nat (sources st ! i) < length es"
    and "0 \<le> sources st ! i \<Longrightarrow>
         \<not> isEqual (getEltType (fromFields ! nat (sources st ! i))) (getEltType (toFields ! i)) \<Longrightarrow>
         \<exists>es c. elements st = Some es \<and> nat (sources st ! i) < length es
                \<and> rec (es ! nat (sources st ! i)) (getEltType (toFields ! i))
                      (withPathElement locator (TupleElement (nat (sources st ! i)))) = Ret c
                \<and> elements st' = Some (es[nat (sources st ! i) := c])"
    and "sources st ! i < 0 \<Longrightarrow> sources st ! i = DefaultInitialize \<or> sources st ! i = FirstVariadic"
  using assms
  unfolding shuffleField_def Let_def
  by (auto simp: DefaultInitialize_def FirstVariadic_def CallerDefaultInitialize_def
           split: if_splits result.splits option.splits)

lemma shuffleField_sugar:
  assumes "shuffleField rec env expr fromFields toFields locator i st = Ret st'"
  shows "\<exists>x. toSugarFields st' = toSugarFields st @ [x]
           \<and> (sources st ! i = FirstVariadic \<longrightarrow> x = toFields ! i)
           \<and> (0 \<le> sources st ! i \<longrightarrow>
                 getName x = getName (toFields ! i)
                 \<and> getDefaultArgKind x = getDefaultArgKind (toFields ! i)
                 \<and> isVararg x = isVararg (toFields ! i)
                 \<and> getEltType x = (case elements st' of
                                      Some es' \<Rightarrow> getType (es' ! nat (sources st ! i))
                                    | None \<Rightarrow> getEltType (fromFields ! nat (sources st ! i))))"
    and "hasInits st' = (hasInits st \<or> sources st ! i = DefaultInitialize
                         \<or> (0 \<le> sources st ! i \<and> hasInit (toFields ! i)))"
  using assms
  unfolding shuffleField_def Let_def
  by (auto simp: DefaultInitialize_def FirstVariadic_def CallerDefaultInitialize_def
           split: if_splits result.splits option.splits)

lemma variadicArg_frame:
  assumes "variadicArg rec fromFields toEltType locator idx st = Ret st'"
  shows "toSugarFields st' = toSugarFields st" "hasInits st' = hasInits st"
    "anythingShuffled st' = anythingShuffled st" "hasVarArg st' = hasVarArg st"
    "(elements st' = None) = (elements st = None)"
    "sources st' = sources st @ [int idx]" "idx < length fromFields"
    "defaultArgsOwner st' = defaultArgsOwner st" "callerDefaultArgs st' = callerDefaultArgs st"
  using assms unfolding variadicArg_def Let_def
  by (auto split: if_splits result.splits option.splits)

lemma variadicArgsLoop_frame:
  "variadicArgsLoop rec fromFields toEltType locator args st = Ret st' \<Longrightarrow>
     toSugarFields st' = toSugarFields st \<and> hasInits st' = hasInits st
     \<and> anythingShuffled st' = anythingShuffled st \<and> hasVarArg st' = hasVarArg st
     \<and> (elements st' = None) = (elements st = None)
     \<and> sources st' = sources st @ map int args \<and> (\<forall>a\<in>set args. a < length fromFields)
     \<and> defaultArgsOwner st' = defaultArgsOwner st \<and> callerDefaultArgs st' = callerDefaultArgs st"
proof (induction args arbitrary: st)
  case Nil
  then show ?case by simp
next
  case (Cons a args)
  from Cons.prems obtain st1 where
    s1: "variadicArg rec fromFields toEltType locator a st = Ret st1"
    and rest: "variadicArgsLoop rec fromFields toEltType locator args st1 = Ret st'"
    by (auto split: result.splits)
  from Cons.IH[OF rest] variadicArg_frame[OF s1] show ?case by simp
qed

lemma convertVariadic_frame:
  assumes "convertVariadic rec env expr fromFields toFields locator variadicArgs st = Ret (st', injectionFn)"
  shows "toSugarFields st' = toSugarFields st" "hasInits st' = hasInits st"
    "anythingShuffled st' = anythingShuffled st" "hasVarArg st' = hasVarArg st"
    "(elements st' = None) = (elements st = None)"
    "sources st' = (if hasVarArg st then sources st @ map int variadicArgs else sources st)"
    "hasVarArg st \<Longrightarrow> \<forall>a\<in>set variadicArgs. a < length fromFields"
    "defaultArgsOwner st' = defaultArgsOwner st" "callerDefaultArgs st' = callerDefaultArgs st"
    "\<not> hasVarArg st \<Longrightarrow> st' = st \<and> injectionFn = None"
  using assms unfolding convertVariadic_def Let_def
  by (auto split: if_splits result.splits option.splits Type.splits dest!: variadicArgsLoop_frame)

lemma shuffleField_elements_None:
  assumes "shuffleField rec env expr fromFields toFields locator i st = Ret st'"
  shows "(elements st' = None) = (elements st = None)"
  using shuffleField_elements(1)[OF assms] by auto

lemma shuffleFields_elements_None:
  "shuffleFields rec env expr fromFields toFields locator is st = Ret st' \<Longrightarrow>
   (elements st' = None) = (elements st = None)"
proof (induction "is" arbitrary: st)
  case Nil
  then show ?case by simp
next
  case (Cons i "is")
  from Cons.prems obtain st1 where
    s1: "shuffleField rec env expr fromFields toFields locator i st = Ret st1"
    and rest: "shuffleFields rec env expr fromFields toFields locator is st1 = Ret st'"
    by (auto split: result.splits)
  from Cons.IH[OF rest] shuffleField_elements_None[OF s1] show ?case by simp
qed

text \<open>
  Claim C8. An expression that has a type, and whose type equals the destination type up
  to canonical types, is returned as it is: the comparison is the first thing
  \<open>coerceToType\<close> does, before it looks at the restrictions of the solution, and no node
  is built.
\<close>

theorem coerceToType_same_type:
  "getType expr \<noteq> NullType \<Longrightarrow> isEqual (getType expr) toType \<Longrightarrow>
   coerceToType (Suc fuel) env expr toType locator = Ret expr"
  by (simp add: coerceToTypeBody_def)

text \<open>The sources through the loop over the destination fields.\<close>

lemma shuffleFields_sources:
  "shuffleFields rec env expr fromFields toFields locator is st = Ret st' \<Longrightarrow> distinct is \<Longrightarrow>
     length (sources st') = length (sources st)
     \<and> (\<forall>j. j \<notin> set is \<longrightarrow> sources st' ! j = sources st ! j)
     \<and> (\<forall>i\<in>set is. i < length (sources st)
           \<and> (sources st' ! i = sources st ! i
               \<or> (sources st ! i = DefaultInitialize \<and> sources st' ! i = CallerDefaultInitialize))
           \<and> (sources st ! i = FirstVariadic \<longrightarrow> i = length toFields - 1)
           \<and> (0 \<le> sources st ! i \<longrightarrow> nat (sources st ! i) < length fromFields))
     \<and> hasVarArg st' = (hasVarArg st \<or> (\<exists>i\<in>set is. sources st ! i = FirstVariadic))
     \<and> anythingShuffled st' = (anythingShuffled st \<or> (\<exists>i\<in>set is. sources st ! i \<noteq> int i))"
proof (induction "is" arbitrary: st)
  case Nil
  then show ?case by simp
next
  case (Cons i "is")
  from Cons.prems obtain st1 where
    s1: "shuffleField rec env expr fromFields toFields locator i st = Ret st1"
    and rest: "shuffleFields rec env expr fromFields toFields locator is st1 = Ret st'"
    by (auto split: result.splits)
  from Cons.prems have ni: "i \<notin> set is" and d: "distinct is" by simp_all
  note f = shuffleField_sources[OF s1]
  note ih = Cons.IH[OF rest d]
  from ih have ih_in: "\<And>j. j \<in> set is \<Longrightarrow> j < length (sources st1)
           \<and> (sources st' ! j = sources st1 ! j
               \<or> (sources st1 ! j = DefaultInitialize \<and> sources st' ! j = CallerDefaultInitialize))
           \<and> (sources st1 ! j = FirstVariadic \<longrightarrow> j = length toFields - 1)
           \<and> (0 \<le> sources st1 ! j \<longrightarrow> nat (sources st1 ! j) < length fromFields)"
    by blast
  have same1: "\<And>j. j \<in> set is \<Longrightarrow> sources st1 ! j = sources st ! j"
    using ni f(3) by metis
  from ih ni have at_i: "sources st' ! i = sources st1 ! i" by simp
  show ?case
  proof (intro conjI allI ballI impI)
    show "length (sources st') = length (sources st)" using ih f(1) by simp
  next
    fix j assume "j \<notin> set (i # is)"
    then show "sources st' ! j = sources st ! j" using ih f(3)[of j] by simp
  next
    fix j assume j: "j \<in> set (i # is)"
    show "j < length (sources st)"
    proof (cases "j = i")
      case True
      with f(2) show ?thesis by simp
    next
      case False
      with j have "j \<in> set is" by simp
      from ih_in[OF this] f(1) show ?thesis by simp
    qed
    show "sources st' ! j = sources st ! j
               \<or> (sources st ! j = DefaultInitialize \<and> sources st' ! j = CallerDefaultInitialize)"
    proof (cases "j = i")
      case True
      with at_i f(4) show ?thesis by simp
    next
      case False
      with j have "j \<in> set is" by simp
      from ih_in[OF this] same1[OF this] show ?thesis by simp
    qed
  next
    fix j assume j: "j \<in> set (i # is)" and fv: "sources st ! j = FirstVariadic"
    show "j = length toFields - 1"
    proof (cases "j = i")
      case True
      with fv f(5) show ?thesis by simp
    next
      case False
      with j have "j \<in> set is" by simp
      from ih_in[OF this] same1[OF this] fv show ?thesis by simp
    qed
  next
    fix j assume j: "j \<in> set (i # is)" and nn: "0 \<le> sources st ! j"
    show "nat (sources st ! j) < length fromFields"
    proof (cases "j = i")
      case True
      with nn f(6) show ?thesis by simp
    next
      case False
      with j have "j \<in> set is" by simp
      from ih_in[OF this] same1[OF this] nn show ?thesis by simp
    qed
  next
    show "hasVarArg st' = (hasVarArg st \<or> (\<exists>i\<in>set (i # is). sources st ! i = FirstVariadic))"
      using ih f(7) same1 by auto
  next
    show "anythingShuffled st' = (anythingShuffled st \<or> (\<exists>i\<in>set (i # is). sources st ! i \<noteq> int i))"
      using ih f(8) same1 by auto
  qed
qed

lemma not_shuffle_updateTupleExpr:
  "tupleElements expr \<noteq> None \<Longrightarrow> updateTupleExpr es T expr \<noteq> TupleShuffleExpr a b c d e f"
  by (induction expr rule: tupleElements.induct) simp_all

text \<open>
  Claim C4, as the code has it. The mapping of a \<open>TupleShuffleExpr\<close> that
  \<open>coerceTupleToTuple\<close> returns has one entry per destination field, which is the source
  given for the field, or \<open>CallerDefaultInitialize\<close> in place of \<open>DefaultInitialize\<close>;
  when a field is variadic these entries are followed by the source indices of the
  variadic arguments, in their order, and by nothing otherwise. \<open>FirstVariadic\<close> is
  only the entry of the last destination field, and every non-negative entry is the
  index of a field of the source tuple.
\<close>

theorem tupleShuffle_mapping:
  assumes run: "coerceTupleToTuple rec env expr fromFields toFields locator srcs variadicArgs
                  = Ret (TupleShuffleExpr sub mapping owner defaults ty injectionFn)"
    and len: "length srcs = length toFields"
  shows "length mapping
           = length toFields + (if FirstVariadic \<in> set srcs then length variadicArgs else 0)
         \<and> (\<forall>i < length toFields.
               mapping ! i = srcs ! i
               \<or> (srcs ! i = DefaultInitialize \<and> mapping ! i = CallerDefaultInitialize))
         \<and> drop (length toFields) mapping
             = (if FirstVariadic \<in> set srcs then map int variadicArgs else [])
         \<and> (\<forall>i < length mapping. mapping ! i = FirstVariadic \<longrightarrow> i = length toFields - 1)
         \<and> (\<forall>i < length mapping. 0 \<le> mapping ! i \<longrightarrow> nat (mapping ! i) < length fromFields)"
proof -
  let ?n = "length toFields"
  let ?st0 = "initialShuffleState expr fromFields srcs"
  from run obtain st st' inj where
    loop: "shuffleFields rec env expr fromFields toFields locator [0 ..< ?n] ?st0 = Ret st"
    and var: "convertVariadic rec env expr fromFields toFields locator variadicArgs st = Ret (st', inj)"
    and e: "TupleShuffleExpr sub mapping owner defaults ty injectionFn = finishShuffle expr toFields st' inj"
    unfolding coerceTupleToTuple_def by (auto split: result.splits)
  have s0: "sources ?st0 = srcs" "hasVarArg ?st0 = False" "elements ?st0 = tupleElements expr"
    by (simp_all add: initialShuffleState_def)
  have eln: "(elements st' = None) = (tupleElements expr = None)"
    using shuffleFields_elements_None[OF loop] convertVariadic_frame(5)[OF var] s0 by simp
  have m: "mapping = sources st'"
    using e eln not_shuffle_updateTupleExpr[of expr _ _ sub mapping owner defaults ty injectionFn]
    unfolding finishShuffle_def Let_def
    by (auto split: option.splits if_splits)
  from shuffleFields_sources[OF loop] s0
  have l: "length (sources st) = length srcs"
    and each: "\<And>i. i < ?n \<Longrightarrow>
           (sources st ! i = srcs ! i
               \<or> (srcs ! i = DefaultInitialize \<and> sources st ! i = CallerDefaultInitialize))
           \<and> (srcs ! i = FirstVariadic \<longrightarrow> i = ?n - 1)
           \<and> (0 \<le> srcs ! i \<longrightarrow> nat (srcs ! i) < length fromFields)"
    and hv: "hasVarArg st = (\<exists>i\<in>set [0 ..< ?n]. srcs ! i = FirstVariadic)"
    by simp_all
  have hv': "hasVarArg st = (FirstVariadic \<in> set srcs)"
    unfolding hv using len by (auto simp: in_set_conv_nth)
  have src': "sources st' = (if hasVarArg st then sources st @ map int variadicArgs else sources st)"
    using convertVariadic_frame(6)[OF var] .
  have c1: "length mapping = ?n + (if FirstVariadic \<in> set srcs then length variadicArgs else 0)"
    using m src' hv' l len by simp
  have nth: "mapping ! i = (if i < ?n then sources st ! i else int (variadicArgs ! (i - ?n)))"
    if "i < length mapping" for i
    using that m src' l len by (auto simp: nth_append)
  have c2: "i = ?n - 1" if i: "i < length mapping" and fv: "mapping ! i = FirstVariadic" for i
  proof (cases "i < ?n")
    case True
    with nth[OF i] fv have "sources st ! i = FirstVariadic" by simp
    with each[OF True] have "srcs ! i = FirstVariadic"
      by (auto simp: CallerDefaultInitialize_def FirstVariadic_def)
    with each[OF True] show ?thesis by simp
  next
    case False
    with nth[OF i] fv show ?thesis by (simp add: FirstVariadic_def)
  qed
  have c3: "nat (mapping ! i) < length fromFields" if i: "i < length mapping" and nn: "0 \<le> mapping ! i" for i
  proof (cases "i < ?n")
    case True
    with nth[OF i] nn have "0 \<le> sources st ! i" "mapping ! i = sources st ! i" by simp_all
    with each[OF True] show ?thesis
      by (auto simp: CallerDefaultInitialize_def)
  next
    case False
    with i c1 have v: "hasVarArg st" "i - ?n < length variadicArgs"
      using hv' by (auto split: if_splits)
    from convertVariadic_frame(7)[OF var v(1)] v(2) have "variadicArgs ! (i - ?n) < length fromFields"
      by simp
    with nth[OF i] False show ?thesis by simp
  qed
  have c4: "mapping ! i = srcs ! i
            \<or> (srcs ! i = DefaultInitialize \<and> mapping ! i = CallerDefaultInitialize)"
    if i: "i < ?n" for i
  proof -
    from i c1 have "i < length mapping" by simp
    from nth[OF this] i have "mapping ! i = sources st ! i" by simp
    with each[OF i] show ?thesis by auto
  qed
  have c5: "drop ?n mapping = (if FirstVariadic \<in> set srcs then map int variadicArgs else [])"
    using m src' hv' l len by simp
  from c1 c2 c3 c4 c5 show ?thesis by blast
qed

lemma shuffleField_identity:
  assumes step: "shuffleField rec env expr fromFields toFields locator i st = Ret st'"
    and src: "sources st ! i = int i" and el: "elements st = Some es"
  shows "\<exists>es'. elements st' = Some es' \<and> length es' = length es \<and> i < length es
           \<and> (\<forall>j. j \<noteq> i \<longrightarrow> es' ! j = es ! j)
           \<and> convertedAt rec fromFields toFields locator es es' i
           \<and> toSugarFields st' = toSugarFields st @ [sugarOf es' toFields i]
           \<and> hasInits st' = (hasInits st \<or> hasInit (toFields ! i))
           \<and> anythingShuffled st' = anythingShuffled st \<and> hasVarArg st' = hasVarArg st
           \<and> sources st' = sources st"
proof -
  have ge: "0 \<le> sources st ! i" and n: "nat (sources st ! i) = i" using src by simp_all
  note so = shuffleField_sources[OF step]
  have sources: "sources st' = sources st"
  proof (rule nth_equalityI)
    show "length (sources st') = length (sources st)" by (rule so(1))
  next
    fix j assume "j < length (sources st')"
    show "sources st' ! j = sources st ! j"
    proof (cases "j = i")
      case True
      with so(4) src show ?thesis by (auto simp: DefaultInitialize_def)
    next
      case False
      then show ?thesis by (rule so(3))
    qed
  qed
  from shuffleField_elements(3)[OF step ge el] n have lt: "i < length es" by simp
  from shuffleField_sugar(1)[OF step] obtain x where
    x: "toSugarFields st' = toSugarFields st @ [x]"
    and xn0: "0 \<le> sources st ! i \<longrightarrow>
                 getName x = getName (toFields ! i)
                 \<and> getDefaultArgKind x = getDefaultArgKind (toFields ! i)
                 \<and> isVararg x = isVararg (toFields ! i)
                 \<and> getEltType x = (case elements st' of
                                      Some es' \<Rightarrow> getType (es' ! nat (sources st ! i))
                                    | None \<Rightarrow> getEltType (fromFields ! nat (sources st ! i)))"
    by blast
  from xn0 ge have xn: "getName x = getName (toFields ! i)"
       "getDefaultArgKind x = getDefaultArgKind (toFields ! i)"
       "isVararg x = isVararg (toFields ! i)"
       "getEltType x = (case elements st' of Some es' \<Rightarrow> getType (es' ! i)
                        | None \<Rightarrow> getEltType (fromFields ! i))"
    unfolding n by simp_all
  have hi: "hasInits st' = (hasInits st \<or> hasInit (toFields ! i))"
    using shuffleField_sugar(2)[OF step] src by simp
  have fl: "anythingShuffled st' = anythingShuffled st" "hasVarArg st' = hasVarArg st"
    using so(7,8) src by simp_all
  show ?thesis
  proof (cases "isEqual (getEltType (fromFields ! i)) (getEltType (toFields ! i))")
    case True
    then have same: "elements st' = Some es"
      using shuffleField_elements(2)[OF step] n el by simp
    have "x = sugarOf es toFields i"
      using xn same by (cases x) (simp add: sugarOf_def)
    with x same lt hi fl sources True show ?thesis
      by (simp add: convertedAt_def)
  next
    case False
    from shuffleField_elements(4)[OF step ge] False n el obtain c where
      r: "rec (es ! i) (getEltType (toFields ! i)) (withPathElement locator (TupleElement i)) = Ret c"
      and upd: "elements st' = Some (es[i := c])" by auto
    have "x = sugarOf (es[i := c]) toFields i"
      using xn upd by (cases x) (simp add: sugarOf_def)
    with x upd lt hi fl sources False r show ?thesis
      by (simp add: convertedAt_def)
  qed
qed

lemma shuffleFields_identity:
  "shuffleFields rec env expr fromFields toFields locator is st = Ret st' \<Longrightarrow>
   distinct is \<Longrightarrow> \<forall>i\<in>set is. sources st ! i = int i \<Longrightarrow> elements st = Some es \<Longrightarrow>
   \<exists>es'. elements st' = Some es' \<and> length es' = length es
        \<and> (\<forall>j. j \<notin> set is \<longrightarrow> es' ! j = es ! j)
        \<and> (\<forall>i\<in>set is. i < length es \<and> convertedAt rec fromFields toFields locator es es' i)
        \<and> toSugarFields st' = toSugarFields st @ map (sugarOf es' toFields) is
        \<and> hasInits st' = (hasInits st \<or> (\<exists>i\<in>set is. hasInit (toFields ! i)))
        \<and> anythingShuffled st' = anythingShuffled st \<and> hasVarArg st' = hasVarArg st
        \<and> sources st' = sources st"
proof (induction "is" arbitrary: st es)
  case Nil
  then show ?case by simp
next
  case (Cons i "is")
  from Cons.prems(1) obtain st1 where
    s1: "shuffleField rec env expr fromFields toFields locator i st = Ret st1"
    and rest: "shuffleFields rec env expr fromFields toFields locator is st1 = Ret st'"
    by (auto split: result.splits)
  from Cons.prems have ni: "i \<notin> set is" and d: "distinct is" and si: "sources st ! i = int i"
    by simp_all
  from shuffleField_identity[OF s1 si Cons.prems(4)] obtain es1 where
    e1: "elements st1 = Some es1" and l1: "length es1 = length es" and lt: "i < length es"
    and o1: "\<And>j. j \<noteq> i \<Longrightarrow> es1 ! j = es ! j"
    and c1: "convertedAt rec fromFields toFields locator es es1 i"
    and g1: "toSugarFields st1 = toSugarFields st @ [sugarOf es1 toFields i]"
    and h1: "hasInits st1 = (hasInits st \<or> hasInit (toFields ! i))"
    and a1: "anythingShuffled st1 = anythingShuffled st" "hasVarArg st1 = hasVarArg st"
    and r1: "sources st1 = sources st" by blast
  from Cons.prems(3) r1 have id1: "\<forall>j\<in>set is. sources st1 ! j = int j" by simp
  from Cons.IH[OF rest d id1 e1] obtain es' where
    e': "elements st' = Some es'" and l': "length es' = length es1"
    and o': "\<And>j. j \<notin> set is \<Longrightarrow> es' ! j = es1 ! j"
    and c': "\<And>j. j \<in> set is \<Longrightarrow> j < length es1 \<and> convertedAt rec fromFields toFields locator es1 es' j"
    and g': "toSugarFields st' = toSugarFields st1 @ map (sugarOf es' toFields) is"
    and h': "hasInits st' = (hasInits st1 \<or> (\<exists>i\<in>set is. hasInit (toFields ! i)))"
    and a': "anythingShuffled st' = anythingShuffled st1" "hasVarArg st' = hasVarArg st1"
    and r': "sources st' = sources st1" by blast
  have ei: "es' ! i = es1 ! i" using o'[OF ni] .
  have conv_i: "convertedAt rec fromFields toFields locator es es' i"
    using c1 ei by (simp add: convertedAt_def)
  have conv_j: "convertedAt rec fromFields toFields locator es es' j" if j: "j \<in> set is" for j
  proof -
    from j ni have "j \<noteq> i" by auto
    from o1[OF this] c'[OF j] show ?thesis by (auto simp: convertedAt_def)
  qed
  have sg: "sugarOf es1 toFields i = sugarOf es' toFields i"
    using ei by (simp add: sugarOf_def)
  show ?case
  proof (intro exI[of _ es'] conjI allI ballI impI)
    show "elements st' = Some es'" by (rule e')
    show "length es' = length es" using l' l1 by simp
    show "toSugarFields st' = toSugarFields st @ map (sugarOf es' toFields) (i # is)"
      using g' g1 sg by simp
    show "hasInits st' = (hasInits st \<or> (\<exists>i\<in>set (i # is). hasInit (toFields ! i)))"
      using h' h1 by auto
    show "anythingShuffled st' = anythingShuffled st" using a' a1 by simp
    show "hasVarArg st' = hasVarArg st" using a' a1 by simp
    show "sources st' = sources st" using r' r1 by simp
  next
    fix j assume "j \<notin> set (i # is)"
    then have "j \<noteq> i" "j \<notin> set is" by auto
    with o1 o' show "es' ! j = es ! j" by simp
  next
    fix j assume j: "j \<in> set (i # is)"
    show "j < length es" using j lt c' l1 by auto
    show "convertedAt rec fromFields toFields locator es es' j"
      using j conv_i conv_j by auto
  qed
qed

text \<open>
  Claim C10, as the code has it. When every destination field takes the source element
  of its own index and the source is a tuple expression under parentheses, the result of
  \<open>coerceTupleToTuple\<close> is the expression itself, with every element whose type differs
  from the destination field's replaced by its coercion, the other elements as they
  were, and the re-sugared destination type on the tuple expression and its parentheses.
\<close>

theorem coerceTupleToTuple_unshuffled:
  assumes run: "coerceTupleToTuple rec env expr fromFields toFields locator srcs variadicArgs = Ret r"
    and lit: "tupleElements expr = Some es0"
    and ident: "srcs = map int [0 ..< length toFields]"
  shows "\<exists>es. r = updateTupleExpr es
                    (if list_ex hasInit toFields then TupleType toFields
                     else TupleType (map (sugarOf es toFields) [0 ..< length toFields]))
                    expr
              \<and> length es = length es0 \<and> length toFields \<le> length es0
              \<and> (\<forall>i < length toFields. convertedAt rec fromFields toFields locator es0 es i)
              \<and> (\<forall>i. length toFields \<le> i \<longrightarrow> es ! i = es0 ! i)"
proof -
  let ?n = "length toFields"
  let ?st0 = "initialShuffleState expr fromFields srcs"
  from run obtain st st' inj where
    loop: "shuffleFields rec env expr fromFields toFields locator [0 ..< ?n] ?st0 = Ret st"
    and var: "convertVariadic rec env expr fromFields toFields locator variadicArgs st = Ret (st', inj)"
    and r: "r = finishShuffle expr toFields st' inj"
    unfolding coerceTupleToTuple_def by (auto split: result.splits)
  have s0: "sources ?st0 = srcs" "hasVarArg ?st0 = False" "elements ?st0 = Some es0"
    "toSugarFields ?st0 = []" "hasInits ?st0 = False" "anythingShuffled ?st0 = False"
    by (simp_all add: initialShuffleState_def lit)
  have id0: "\<forall>i\<in>set [0 ..< ?n]. sources ?st0 ! i = int i"
    using ident s0(1) by simp
  have d0: "distinct [0 ..< ?n]" by simp
  from shuffleFields_identity[OF loop d0 id0 s0(3)] obtain es where
    e: "elements st = Some es" and l: "length es = length es0"
    and out0: "\<forall>j. j \<notin> set [0 ..< ?n] \<longrightarrow> es ! j = es0 ! j"
    and conv0: "\<forall>i\<in>set [0 ..< ?n]. i < length es0 \<and> convertedAt rec fromFields toFields locator es0 es i"
    and sg0: "toSugarFields st = toSugarFields ?st0 @ map (sugarOf es toFields) [0 ..< ?n]"
    and hi0: "hasInits st = (hasInits ?st0 \<or> (\<exists>i\<in>set [0 ..< ?n]. hasInit (toFields ! i)))"
    and fl0: "anythingShuffled st = anythingShuffled ?st0" "hasVarArg st = hasVarArg ?st0"
    by blast
  have out: "\<And>j. \<not> j < ?n \<Longrightarrow> es ! j = es0 ! j" using out0 by simp
  have conv: "\<And>i. i < ?n \<Longrightarrow> i < length es0 \<and> convertedAt rec fromFields toFields locator es0 es i"
    using conv0 by simp
  have sg: "toSugarFields st = map (sugarOf es toFields) [0 ..< ?n]" using sg0 s0(4) by simp
  have hi: "hasInits st = (\<exists>i\<in>set [0 ..< ?n]. hasInit (toFields ! i))" using hi0 s0(5) by simp
  have fl: "\<not> anythingShuffled st" "\<not> hasVarArg st" using fl0 s0(2,6) by simp_all
  from convertVariadic_frame(10)[OF var fl(2)] have same: "st' = st" by simp
  have hi': "hasInits st = list_ex hasInit toFields"
    unfolding hi list_ex_iff by (simp add: in_set_conv_nth Bex_def) blast
  have le: "?n \<le> length es0"
  proof (rule ccontr)
    assume "\<not> ?n \<le> length es0"
    then have "length es0 < ?n" by simp
    from conv[OF this] show False by simp
  qed
  have "r = updateTupleExpr es
              (if list_ex hasInit toFields then TupleType toFields
               else TupleType (map (sugarOf es toFields) [0 ..< ?n])) expr"
    unfolding r same finishShuffle_def Let_def using e fl(1) hi' sg by simp
  with l le conv out show ?thesis by (intro exI[of _ es]) (auto simp: not_less)
qed

section \<open>Checked casts that always succeed\<close>

lemma checkAsCastExpr_trivial:
  assumes "checkCheckedCastExpr env sub toType = (InvalidCoercible, sub')" and "ty \<noteq> NullType"
  shows "snd (checkAsCastExpr fuel env (ConditionalCheckedCastExpr sub toType kind implicit ty))
     = (if isEqual ty (getType sub') then Ret sub'
        else
          (case coerceToType fuel env sub' toType
                  (getConstraintLocator env
                     (ConditionalCheckedCastExpr sub' toType kind implicit ty)) of
             Ret coerced \<Rightarrow> Ret (InjectIntoOptionalExpr (Some coerced) (OptionalTypeGet env toType))
           | Null ds \<Rightarrow> Ret (InjectIntoOptionalExpr None (OptionalTypeGet env toType))
           | Abort m \<Rightarrow> Abort m
           | OutOfFuel \<Rightarrow> OutOfFuel))"
  using assms by (simp add: checkAsCastExpr_def Let_def split: result.splits)

text \<open>
  Claim C9, as the code has it. \<open>visitConditionalCheckedCastExpr\<close> sets the type of
  the cast to the optional of the target type before it calls \<open>checkAsCastExpr\<close>. For
  a cast of kind \<open>InvalidCoercible\<close>: when that optional type equals the type of the
  subexpression, the result is the subexpression itself, not wrapped, and its type is
  the optional of the target type; when the types differ, the subexpression is coerced
  to the target type and the result of the coercion, null too, is wrapped in an
  \<open>InjectIntoOptionalExpr\<close> of the optional of the target type.
\<close>

theorem asCast_trivially_true:
  assumes "checkCheckedCastExpr env sub toType = (InvalidCoercible, sub')"
    and "getOptionalType (tc env) toType = OptionalTypeGet env toType"
  shows "(isEqual (OptionalTypeGet env toType) (getType sub') \<longrightarrow>
            snd (visitConditionalCheckedCastExpr fuel env
                   (ConditionalCheckedCastExpr sub toType kind implicit ty)) = Ret sub'
            \<and> getCanonicalType (getType sub')
                = BoundGenericType (getOptionalDecl (decls env)) [getCanonicalType toType])
       \<and> (\<not> isEqual (OptionalTypeGet env toType) (getType sub') \<longrightarrow>
            snd (visitConditionalCheckedCastExpr fuel env
                   (ConditionalCheckedCastExpr sub toType kind implicit ty))
            = (case coerceToType fuel env sub' toType
                      (getConstraintLocator env
                         (ConditionalCheckedCastExpr sub' toType kind implicit
                            (OptionalTypeGet env toType))) of
                 Ret coerced \<Rightarrow>
                   Ret (InjectIntoOptionalExpr (Some coerced) (OptionalTypeGet env toType))
               | Null ds \<Rightarrow> Ret (InjectIntoOptionalExpr None (OptionalTypeGet env toType))
               | Abort m \<Rightarrow> Abort m
               | OutOfFuel \<Rightarrow> OutOfFuel))"
proof -
  have ne: "OptionalTypeGet env toType \<noteq> NullType"
    by (simp add: OptionalTypeGet_def)
  have v: "visitConditionalCheckedCastExpr fuel env
             (ConditionalCheckedCastExpr sub toType kind implicit ty)
           = checkAsCastExpr fuel env
               (ConditionalCheckedCastExpr sub toType kind implicit (OptionalTypeGet env toType))"
    using assms(2) by (simp add: visitConditionalCheckedCastExpr_def)
  note c = checkAsCastExpr_trivial [OF assms(1) ne, of fuel kind implicit]
  have canon: "isEqual (OptionalTypeGet env toType) (getType sub') \<Longrightarrow>
      getCanonicalType (getType sub')
        = BoundGenericType (getOptionalDecl (decls env)) [getCanonicalType toType]"
    by (simp add: isEqual_def OptionalTypeGet_def)
  show ?thesis
    using c canon by (simp add: v)
qed

section \<open>The depth counter of the walker\<close>

text \<open>
  An expression that discards an assignment is diagnosed exactly when the counter is
  zero; a failed walk of the destination of an assignment ends the walk of the
  assignment at once, with the counter as the destination left it; and when no visit
  fails, every walk returns a node and leaves the counter as it found it.
\<close>

lemma walk_discard:
  "walk v (DiscardAssignmentExpr t) w =
     (visit v (DiscardAssignmentExpr t),
      if LeftSideOfAssignment w = 0
      then w\<lparr> emitted := emitted w @ [discard_expr_outside_of_assignment] \<rparr> else w)"
  by simp

lemma walk_assign_destination_fails:
  "fst (walk v dest (w\<lparr> LeftSideOfAssignment := LeftSideOfAssignment w + 1 \<rparr>)) = None \<Longrightarrow>
   walk v (AssignExpr dest src t) w
     = (None, snd (walk v dest (w\<lparr> LeftSideOfAssignment := LeftSideOfAssignment w + 1 \<rparr>)))"
  by (cases "walk v dest (w\<lparr> LeftSideOfAssignment := LeftSideOfAssignment w + 1 \<rparr>)") auto

lemma walked_restores:
  "neverFails v \<Longrightarrow> fst r \<noteq> None \<Longrightarrow>
   fst (walked v rebuild r) \<noteq> None \<and> snd (walked v rebuild r) = snd r"
  by (cases r) (auto simp: walked_def neverFails_def)

lemma walk_restores_counter:
  "neverFails v \<Longrightarrow>
     fst (walk v e w) \<noteq> None
     \<and> LeftSideOfAssignment (snd (walk v e w)) = LeftSideOfAssignment w"
  "neverFails v \<Longrightarrow>
     fst (walkAll v es w) \<noteq> None
     \<and> LeftSideOfAssignment (snd (walkAll v es w)) = LeftSideOfAssignment w"
proof (induction v e w and v es w rule: walk_walkAll.induct)
  case (6 v body t w)
  show ?case
  proof (cases body)
    case None
    then show ?thesis using "6.prems" by (simp add: neverFails_def Let_def)
  next
    case (Some b)
    have np: "\<not> coerceParamsFails v (simplifyExprType v (ClosureExpr body t))"
      using "6.prems" by (simp add: neverFails_def)
    from "6.IH" [OF refl np Some "6.prems"]
    obtain b' w1 where r: "walk v b w = (Some b', w1)"
      and l: "LeftSideOfAssignment w1 = LeftSideOfAssignment w"
      by (cases "walk v b w") auto
    from "6.prems" have
      "coerceClosureBody v (simplifyExprType v (ClosureExpr body t)) b' \<noteq> None"
      by (simp add: neverFails_def)
    then obtain c where
      "coerceClosureBody v (simplifyExprType v (ClosureExpr body t)) b' = Some c"
      by blast
    then show ?thesis using Some np r l by (simp add: Let_def)
  qed
next
  case (7 v base hasTypeRepr t w)
  show ?case
  proof (cases "hasTypeRepr \<or> base = None")
    case True
    then show ?thesis using "7.prems" by (auto simp: neverFails_def)
  next
    case False
    then obtain b where b: "base = Some b" and n: "\<not> hasTypeRepr" by auto
    from "7.IH" [OF n b "7.prems"]
    obtain b' w1 where r: "walk v b w = (Some b', w1)"
      and l: "LeftSideOfAssignment w1 = LeftSideOfAssignment w"
      by (cases "walk v b w") auto
    from "7.prems" have "visit v (MetatypeExpr (Some b') hasTypeRepr t) \<noteq> None"
      by (simp add: neverFails_def)
    then obtain c where "visit v (MetatypeExpr (Some b') hasTypeRepr t) = Some c"
      by blast
    then show ?thesis using b n r l by (simp add: walked_def)
  qed
qed (auto simp: neverFails_def walked_def Let_def split: prod.splits option.splits)

section \<open>Executions\<close>




text \<open>
  A pair of \<open>Derived\<close> values that is not a tuple expression cannot be coerced to a
  pair of \<open>Base\<close>, with any fuel.
\<close>

lemma not_expressible_any_fuel:
  "coerceToType (Suc fuel) env0 (DeclRefExpr 9 (pairOf Derived Derived)) (pairOf Base Base) (0, [])
     = Null [tuple_conversion_not_expressible]"
proof -
  have ne: "\<not> isEqual (getType (DeclRefExpr 9 (pairOf Derived Derived))) (pairOf Base Base)"
    by code_simp
  have none: "constraintRestrictions (solution (rewriter env0))
                (getCanonicalType (getType (DeclRefExpr 9 (pairOf Derived Derived))),
                 getCanonicalType (pairOf Base Base)) = None"
    by code_simp
  have tup: "coerceToTuple rec env0 (DeclRefExpr 9 (pairOf Derived Derived))
               (pairOf Derived Derived) (pairOf Base Base) (0, [])
             = Some (Null [tuple_conversion_not_expressible])" for rec
    by (simp add: coerceToTuple_def coerceTupleToTuple_def shuffleField_def pairOf_def
          plainField_def env0_def tc0_def decls0_def getAsTupleType_def Derived_def Base_def
          initialShuffleState_def isEqual_def Let_def upt_rec DefaultInitialize_def
          FirstVariadic_def)
  have typed: "getType (DeclRefExpr 9 (pairOf Derived Derived)) \<noteq> NullType"
    by (simp add: pairOf_def)
  show ?thesis
    using ne none typed
    by (simp add: coerceToTypeBody_def Let_def tup firstOf_def List.map_filter_simps)
qed

text \<open>
  Claim C1. The coercion of \<^verbatim>\<open>t\<close>, a reference of type \<open>(Derived, Derived)\<close>, to
  \<open>(Base, Base)\<close>: the type checker computes the identity shuffle for the two tuple
  types, so the conversion is valid, but the reference is not a tuple expression whose
  elements could be converted in place, and \<open>coerceToType\<close> returns null after the
  diagnostic that the conversion cannot be expressed, with little or much fuel, where
  its documentation says that it cannot fail and returns an expression of the
  destination type. On a tuple expression of the same type the same coercion returns a
  node of the destination type.
\<close>

theorem coerceToType_not_expressible:
  "computeTupleShuffle (tc env0) [plainField Derived, plainField Derived]
     [plainField Base, plainField Base] False
     = Some ([0, 1], [])
   \<and> coerceToType 1 env0 (DeclRefExpr 9 (pairOf Derived Derived)) (pairOf Base Base) (0, [])
     = Null [tuple_conversion_not_expressible]
   \<and> coerceToType 9 env0 (DeclRefExpr 9 (pairOf Derived Derived)) (pairOf Base Base) (0, [])
     = Null [tuple_conversion_not_expressible]
   \<and> coerceToType 2 env0
        (TupleExpr [DeclRefExpr 8 Derived, DeclRefExpr 9 Derived] (pairOf Derived Derived))
        (pairOf Base Base) (0, [])
     = Ret (TupleExpr [DerivedToBaseExpr (DeclRefExpr 8 Derived) Base,
                       DerivedToBaseExpr (DeclRefExpr 9 Derived) Base] (pairOf Base Base))"
  by code_simp

text \<open>
  A source field and two variadic arguments.
\<close>

theorem tupleShuffle_mapping_witness:
  "coerceTupleToTuple (coerceToType 1 env0) env0
     (DeclRefExpr 9 (TupleType [plainField IntStruct, plainField IntStruct, plainField IntStruct]))
     [plainField IntStruct, plainField IntStruct, plainField IntStruct] [plainField IntStruct, variadicField IntStruct]
     (0, []) [0, FirstVariadic] [1, 2]
   = Ret (TupleShuffleExpr
            (DeclRefExpr 9 (TupleType [plainField IntStruct, plainField IntStruct, plainField IntStruct]))
            [0, FirstVariadic, 1, 2] None [] (TupleType [plainField IntStruct, variadicField IntStruct])
            (Some (DeclRefExpr 50
               (FunctionType (BuiltinIntegerType 64) (ArraySliceType IntStruct) False False))))
   \<and> length [0, FirstVariadic] = length [plainField IntStruct, variadicField IntStruct]
   \<and> length [0, FirstVariadic, 1, 2]
       = length [plainField IntStruct, variadicField IntStruct]
         + (if FirstVariadic \<in> set [0, FirstVariadic] then length [1 :: nat, 2] else 0)
   \<and> drop (length [plainField IntStruct, variadicField IntStruct]) [0, FirstVariadic, 1, 2]
       = map int [1, 2]
   \<and> [0, FirstVariadic, 1, 2] ! 1 = FirstVariadic
   \<and> length [plainField IntStruct, variadicField IntStruct] - 1 = 1
   \<and> nat ([0, FirstVariadic, 1, 2] ! 3)
       < length [plainField IntStruct, plainField IntStruct, plainField IntStruct]"
proof -
  have run: "coerceTupleToTuple (coerceToType 1 env0) env0
     (DeclRefExpr 9 (TupleType [plainField IntStruct, plainField IntStruct, plainField IntStruct]))
     [plainField IntStruct, plainField IntStruct, plainField IntStruct] [plainField IntStruct, variadicField IntStruct]
     (0, []) [0, FirstVariadic] [1, 2]
   = Ret (TupleShuffleExpr
            (DeclRefExpr 9 (TupleType [plainField IntStruct, plainField IntStruct, plainField IntStruct]))
            [0, FirstVariadic, 1, 2] None [] (TupleType [plainField IntStruct, variadicField IntStruct])
            (Some (DeclRefExpr 50
               (FunctionType (BuiltinIntegerType 64) (ArraySliceType IntStruct) False False))))"
    by code_simp
  have len: "length [0, FirstVariadic] = length [plainField IntStruct, variadicField IntStruct]"
    by simp
  show ?thesis
    using tupleShuffle_mapping [OF run len] run len by (simp add: FirstVariadic_def)
qed

text \<open>
  Two source elements that become the variadic arguments of the only
  destination field. The mapping has three entries for one destination field.
\<close>

theorem tupleShuffle_variadic_mapping:
  "coerceTupleToTuple (coerceToType 1 env0) env0
     (TupleExpr [DeclRefExpr 8 IntStruct, DeclRefExpr 9 IntStruct] (pairOf IntStruct IntStruct))
     [plainField IntStruct, plainField IntStruct] [variadicField IntStruct] (0, []) [FirstVariadic] [0, 1]
   = Ret (TupleShuffleExpr
            (TupleExpr [DeclRefExpr 8 IntStruct, DeclRefExpr 9 IntStruct] (pairOf IntStruct IntStruct))
            [FirstVariadic, 0, 1] None [] (TupleType [variadicField IntStruct])
            (Some (DeclRefExpr 50
               (FunctionType (BuiltinIntegerType 64) (ArraySliceType IntStruct) False False))))
   \<and> length [FirstVariadic, 0, 1] = 3 \<and> length [variadicField IntStruct] = 1"
  by code_simp

text \<open>
  Claim C5. The method 7, of natural argument count 3, is applied to an lvalue and the
  reference, at address 10, is tracked with count 2. The application of the reference
  is rewritten, \<^verbatim>\<open>finishApply\<close> fails and returns null: \<^verbatim>\<open>visitApplyExpr\<close> removes
  the entry and tracks the null result with count 1, and \<open>finalize\<close>, which reads the
  location of every key, dereferences the null key where the entry should get its
  diagnostic. When the result is a node, at address 11, the entry gets the diagnostic.
  The same method referenced through a specialization, as for a method of a generic
  value type, is not tracked at all.
\<close>

theorem tracker_null_entry:
  "dm_find (trackValueTypeMember decls0 [] 10
       (ApplyExpr DotSyntaxCall (DeclRefExpr 7 NullType)
          (DeclRefExpr 1 (LValueType IntStruct 0)) False NullType)) 10 = Some 2
   \<and> visitApplyExpr_applications [(10, 2)] 10 0 = Ret [(0, 1)]
   \<and> finalize [(0, 1)] = Abort ''null dereference''
   \<and> visitApplyExpr_applications [(10, 2)] 10 11 = Ret [(11, 1)]
   \<and> finalize [(11, 1)] = Ret [(11, partial_application_of_value_type_method)]
   \<and> trackValueTypeMember decls0 [] 10
       (ApplyExpr DotSyntaxCall (OtherExpr ''SpecializeExpr'' [DeclRefExpr 7 NullType] NullType)
          (DeclRefExpr 1 (LValueType (BoundGenericType 5 [IntStruct]) 0)) False NullType) = []"
  by code_simp

text \<open>
  The default arguments of kinds \<open>Normal\<close>, \<open>Line\<close> and \<open>None\<close>.
\<close>

theorem getCallerDefaultArg_kinds_witness:
  "getCallerDefaultArg env0 5 60 0 = Null []
   \<and> getCallerDefaultArg env0 5 60 2 = Ret (MagicIdentifierLiteralExpr Magic_Line 5 True IntStruct)
   \<and> getCallerDefaultArg env0 5 60 4 = Abort ''No default argument here?''"
proof -
  have d: "getDefaultArg (decls env0) 60 0 = (DAK_Normal, IntStruct)"
    "getDefaultArg (decls env0) 60 2 = (DAK_Line, IntStruct)"
    "getDefaultArg (decls env0) 60 4 = (DAK_None, IntStruct)"
    by (simp_all add: env0_def decls0_def)
  have c: "typeCheckExpression (tc env0) (MagicIdentifierLiteralExpr Magic_Line 5 True NullType) IntStruct
           = (False, MagicIdentifierLiteralExpr Magic_Line 5 True IntStruct)"
    by (simp add: env0_def tc0_def IntStruct_def)
  show ?thesis
    using getCallerDefaultArg_kinds [of env0 5 60 0] getCallerDefaultArg_kinds [of env0 5 60 2]
      getCallerDefaultArg_kinds [of env0 5 60 4] d c
    by (simp add: magicKindOf_def)
qed

text \<open>
  The type of the expression is a sugared spelling of the destination type.
\<close>

theorem coerceToType_same_type_witness:
  "getType (DeclRefExpr 9 (SubstitutedType (ArchetypeType 0 NullType) IntStruct)) \<noteq> NullType
   \<and> isEqual (getType (DeclRefExpr 9 (SubstitutedType (ArchetypeType 0 NullType) IntStruct))) IntStruct
   \<and> coerceToType 1 env0 (DeclRefExpr 9 (SubstitutedType (ArchetypeType 0 NullType) IntStruct))
        IntStruct (0, []) = Ret (DeclRefExpr 9 (SubstitutedType (ArchetypeType 0 NullType) IntStruct))"
proof -
  have t: "getType (DeclRefExpr 9 (SubstitutedType (ArchetypeType 0 NullType) IntStruct)) \<noteq> NullType"
    by simp
  have e: "isEqual (getType (DeclRefExpr 9 (SubstitutedType (ArchetypeType 0 NullType) IntStruct))) IntStruct"
    by (simp add: isEqual_def IntStruct_def)
  show ?thesis
    using coerceToType_same_type [OF t e, of 0 env0 "(0, [])"] t e by simp
qed

text \<open>
  The first element needs a conversion to the superclass, the second none.
\<close>

theorem coerceTupleToTuple_unshuffled_witness:
  "coerceTupleToTuple (coerceToType 1 env0) env0
     (TupleExpr [DeclRefExpr 8 Derived, DeclRefExpr 9 IntStruct] (pairOf Derived IntStruct))
     [plainField Derived, plainField IntStruct] [plainField Base, plainField IntStruct] (0, []) [0, 1] []
   = Ret (TupleExpr [DerivedToBaseExpr (DeclRefExpr 8 Derived) Base, DeclRefExpr 9 IntStruct]
            (pairOf Base IntStruct))
   \<and> tupleElements (TupleExpr [DeclRefExpr 8 Derived, DeclRefExpr 9 IntStruct] (pairOf Derived IntStruct))
       = Some [DeclRefExpr 8 Derived, DeclRefExpr 9 IntStruct]
   \<and> [0, 1] = map int [0 ..< length [plainField Base, plainField IntStruct]]
   \<and> (\<exists>es. TupleExpr [DerivedToBaseExpr (DeclRefExpr 8 Derived) Base, DeclRefExpr 9 IntStruct]
              (pairOf Base IntStruct)
            = updateTupleExpr es
                (if list_ex hasInit [plainField Base, plainField IntStruct]
                 then TupleType [plainField Base, plainField IntStruct]
                 else TupleType (map (sugarOf es [plainField Base, plainField IntStruct])
                                   [0 ..< length [plainField Base, plainField IntStruct]]))
                (TupleExpr [DeclRefExpr 8 Derived, DeclRefExpr 9 IntStruct] (pairOf Derived IntStruct))
          \<and> length es = length [DeclRefExpr 8 Derived, DeclRefExpr 9 IntStruct]
          \<and> length [plainField Base, plainField IntStruct] \<le> length [DeclRefExpr 8 Derived, DeclRefExpr 9 IntStruct]
          \<and> (\<forall>i < length [plainField Base, plainField IntStruct].
                convertedAt (coerceToType 1 env0) [plainField Derived, plainField IntStruct]
                  [plainField Base, plainField IntStruct] (0, [])
                  [DeclRefExpr 8 Derived, DeclRefExpr 9 IntStruct] es i)
          \<and> (\<forall>i. length [plainField Base, plainField IntStruct] \<le> i
                \<longrightarrow> es ! i = [DeclRefExpr 8 Derived, DeclRefExpr 9 IntStruct] ! i))"
proof -
  have run: "coerceTupleToTuple (coerceToType 1 env0) env0
     (TupleExpr [DeclRefExpr 8 Derived, DeclRefExpr 9 IntStruct] (pairOf Derived IntStruct))
     [plainField Derived, plainField IntStruct] [plainField Base, plainField IntStruct] (0, []) [0, 1] []
   = Ret (TupleExpr [DerivedToBaseExpr (DeclRefExpr 8 Derived) Base, DeclRefExpr 9 IntStruct]
            (pairOf Base IntStruct))"
    by code_simp
  have lit: "tupleElements (TupleExpr [DeclRefExpr 8 Derived, DeclRefExpr 9 IntStruct] (pairOf Derived IntStruct))
       = Some [DeclRefExpr 8 Derived, DeclRefExpr 9 IntStruct]"
    by simp
  have ident: "[0, 1] = map int [0 ..< length [plainField Base, plainField IntStruct]]"
    by (simp add: upt_rec)
  show ?thesis
    using coerceTupleToTuple_unshuffled [OF run lit ident] run lit ident by blast
qed

text \<open>
  Nothing is shuffled and the source is a tuple expression in parentheses,
  but the second element of the tuple expression is replaced by its coercion: more than
  the types of the tuple expression and the parentheses has changed.
\<close>

theorem coerceTupleToTuple_converts_in_place:
  "coerceTupleToTuple (coerceToType 1 env0) env0
     (ParenExpr (TupleExpr [DeclRefExpr 8 IntStruct, DeclRefExpr 9 Derived]
                   (pairOf IntStruct Derived)) (pairOf IntStruct Derived))
     [plainField IntStruct, plainField Derived] [plainField IntStruct, plainField Base] (0, []) [0, 1] []
   = Ret (ParenExpr (TupleExpr [DeclRefExpr 8 IntStruct, DerivedToBaseExpr (DeclRefExpr 9 Derived) Base]
                       (pairOf IntStruct Base)) (pairOf IntStruct Base))
   \<and> tupleElements (ParenExpr (TupleExpr [DeclRefExpr 8 IntStruct, DeclRefExpr 9 Derived]
                   (pairOf IntStruct Derived)) (pairOf IntStruct Derived))
       = Some [DeclRefExpr 8 IntStruct, DeclRefExpr 9 Derived]
   \<and> tupleElements (ParenExpr (TupleExpr [DeclRefExpr 8 IntStruct, DerivedToBaseExpr (DeclRefExpr 9 Derived) Base]
                       (pairOf IntStruct Base)) (pairOf IntStruct Base))
       = Some [DeclRefExpr 8 IntStruct, DerivedToBaseExpr (DeclRefExpr 9 Derived) Base]"
  by code_simp





text \<open>
  A cast of a \<open>Derived\<close> value to \<open>Base\<close> is a coercion wrapped in an
  optional.
\<close>

theorem asCast_trivially_true_witness:
  "checkCheckedCastExpr env0 (DeclRefExpr 6 Derived) Base = (InvalidCoercible, DeclRefExpr 6 Derived)
   \<and> getOptionalType (tc env0) Base = OptionalTypeGet env0 Base
   \<and> \<not> isEqual (OptionalTypeGet env0 Base) (getType (DeclRefExpr 6 Derived))
   \<and> snd (visitConditionalCheckedCastExpr 1 env0
             (ConditionalCheckedCastExpr (DeclRefExpr 6 Derived) Base Unresolved True NullType))
       = Ret (InjectIntoOptionalExpr (Some (DerivedToBaseExpr (DeclRefExpr 6 Derived) Base))
                (BoundGenericType 100 [Base]))"
proof -
  have k: "checkCheckedCastExpr env0 (DeclRefExpr 6 Derived) Base
             = (InvalidCoercible, DeclRefExpr 6 Derived)"
    by code_simp
  have o: "getOptionalType (tc env0) Base = OptionalTypeGet env0 Base"
    by code_simp
  have d: "\<not> isEqual (OptionalTypeGet env0 Base) (getType (DeclRefExpr 6 Derived))"
    by code_simp
  have run: "coerceToType 1 env0 (DeclRefExpr 6 Derived) Base
               (getConstraintLocator env0
                  (ConditionalCheckedCastExpr (DeclRefExpr 6 Derived) Base Unresolved True
                     (OptionalTypeGet env0 Base)))
             = Ret (DerivedToBaseExpr (DeclRefExpr 6 Derived) Base)"
    by code_simp
  have t: "OptionalTypeGet env0 Base = BoundGenericType 100 [Base]"
    by code_simp
  show ?thesis
    using asCast_trivially_true [OF k o, of 1 Unresolved True NullType] k o d run t by simp
qed

text \<open>
  A cast of an optional existential to the existential. The type of the cast
  equals the type of the subexpression, the subexpression is returned, and it is of
  optional type.
\<close>

theorem asCast_returns_optional_subexpression:
  "visitConditionalCheckedCastExpr 1 env0
     (ConditionalCheckedCastExpr (DeclRefExpr 5 (BoundGenericType 100 [AnyTy])) AnyTy
        Unresolved False NullType)
   = ([downcast_to_supertype], Ret (DeclRefExpr 5 (BoundGenericType 100 [AnyTy])))
   \<and> getType (DeclRefExpr 5 (BoundGenericType 100 [AnyTy])) = OptionalTypeGet env0 AnyTy
   \<and> checkCheckedCastExpr env0 (DeclRefExpr 5 (BoundGenericType 100 [AnyTy])) AnyTy
       = (InvalidCoercible, DeclRefExpr 5 (BoundGenericType 100 [AnyTy]))"
  by code_simp

text \<open>
  Claim C7. The walk of \<^verbatim>\<open>c ? (bad = x) : _\<close>, where the visit of \<^verbatim>\<open>bad\<close> fails: the
  walk of the assignment returns before the counter is decremented, the walk of the
  conditional expression goes on, and the discarded assignment in the other branch,
  which is in no destination, is visited with the counter at 1 and not diagnosed. With
  a destination whose visit succeeds, the same expression is diagnosed.
\<close>

theorem walk_unbalanced_after_failed_destination:
  "applySolutionWalk visits0
     (IfExpr (DeclRefExpr 1 (BuiltinIntegerType 1))
        (AssignExpr (DeclRefExpr 66 (LValueType IntStruct 0)) (DeclRefExpr 3 IntStruct) (TupleType []))
        (DiscardAssignmentExpr (LValueType IntStruct 0)) (TupleType []))
   = (Some (IfExpr (DeclRefExpr 1 (BuiltinIntegerType 1))
        (AssignExpr (DeclRefExpr 66 (LValueType IntStruct 0)) (DeclRefExpr 3 IntStruct) (TupleType []))
        (DiscardAssignmentExpr (LValueType IntStruct 0)) (TupleType [])),
      \<lparr> LeftSideOfAssignment = 1, emitted = [] \<rparr>)
   \<and> applySolutionWalk visits0
     (IfExpr (DeclRefExpr 1 (BuiltinIntegerType 1))
        (AssignExpr (DeclRefExpr 65 (LValueType IntStruct 0)) (DeclRefExpr 3 IntStruct) (TupleType []))
        (DiscardAssignmentExpr (LValueType IntStruct 0)) (TupleType []))
   = (Some (IfExpr (DeclRefExpr 1 (BuiltinIntegerType 1))
        (AssignExpr (DeclRefExpr 65 (LValueType IntStruct 0)) (DeclRefExpr 3 IntStruct) (TupleType []))
        (DiscardAssignmentExpr (LValueType IntStruct 0)) (TupleType [])),
      \<lparr> LeftSideOfAssignment = 0, emitted = [discard_expr_outside_of_assignment] \<rparr>)"
  by code_simp

end
